theory Spec2Isabelle
  imports Complex_Main
begin

section \<open>Cable Generator: a model of \<^verbatim>\<open>cable_generator.py\<close>\<close>

text \<open>
  The add-on works on the host's scene graph. The model keeps the part of the host state
  that the add-on reads or writes: objects with a name, custom properties, a parent, a
  transform, curve or mesh data and modifiers.

  Modelling decisions, which every theorem below inherits:
  \<^item> Python and host floats are real numbers. Rounding is not modelled.
  \<^item> A \<^verbatim>\<open>mathutils.Vector\<close> has three components; an array-valued custom property
    is an array of three floats.
  \<^item> An object is named by an identifier; \<^verbatim>\<open>obj.children\<close> are the objects whose
    parent is \<^verbatim>\<open>obj\<close>. Every object owns its data block.
  \<^item> An object carries its world matrix \<^verbatim>\<open>matrix_world\<close>, as the host last evaluated
    it or as the add-on last assigned it, and the properties \<^verbatim>\<open>location\<close> and
    \<^verbatim>\<open>scale\<close>, which are relative to the parent. The matrices of objects are affine:
    a 3x3 part, kept as its three columns, and a translation. Assigning
    \<^verbatim>\<open>matrix_world\<close> stores the matrix and makes the host recompute the location and
    the scale from it, relative to the parent. The rotation property, which the add-on
    never reads, and delta transforms are not part of the model; the host's next
    evaluation of \<^verbatim>\<open>matrix_world\<close> from the properties happens between the calls
    of the add-on.
  \<^item> A property write stores the value written: the host's clamping of a property to
    its range and its renaming of objects with equal names are not modelled.
\<close>

subsection \<open>Vectors\<close>

datatype vec = Vector (vx: real) (vy: real) (vz: real)

instantiation vec :: "{zero, plus, minus, uminus}"
begin

definition zero_vec :: vec where
  "zero_vec = Vector 0 0 0"

definition plus_vec :: "vec \<Rightarrow> vec \<Rightarrow> vec" where
  "plus_vec a b = Vector (vx a + vx b) (vy a + vy b) (vz a + vz b)"

definition minus_vec :: "vec \<Rightarrow> vec \<Rightarrow> vec" where
  "minus_vec a b = Vector (vx a - vx b) (vy a - vy b) (vz a - vz b)"

definition uminus_vec :: "vec \<Rightarrow> vec" where
  "uminus_vec a = Vector (- vx a) (- vy a) (- vz a)"

instance ..

end

text \<open>\<^verbatim>\<open>v * s\<close> for a vector and a number.\<close>

definition smul :: "vec \<Rightarrow> real \<Rightarrow> vec" where
  "smul v s = Vector (vx v * s) (vy v * s) (vz v * s)"

definition dot :: "vec \<Rightarrow> vec \<Rightarrow> real" where
  "dot a b = vx a * vx b + vy a * vy b + vz a * vz b"

definition cross :: "vec \<Rightarrow> vec \<Rightarrow> vec" where
  "cross a b = Vector (vy a * vz b - vz a * vy b)
                      (vz a * vx b - vx a * vz b)
                      (vx a * vy b - vy a * vx b)"

text \<open>\<^verbatim>\<open>v.length\<close>\<close>

definition vlength :: "vec \<Rightarrow> real" where
  "vlength v = sqrt (dot v v)"

text \<open>\<^verbatim>\<open>v.normalized()\<close>: the zero vector stays the zero vector.\<close>

definition normalized :: "vec \<Rightarrow> vec" where
  "normalized v = (if vlength v = 0 then 0 else smul v (1 / vlength v))"

subsection \<open>Matrices\<close>

text \<open>A 3x3 matrix is kept as its three columns, an affine 4x4 matrix as its 3x3 part and
  its translation.\<close>

type_synonym mat3 = "vec \<times> vec \<times> vec"

type_synonym mat4 = "mat3 \<times> vec"

definition to_3x3 :: "mat4 \<Rightarrow> mat3" where
  "to_3x3 m = fst m"

definition translation :: "mat4 \<Rightarrow> vec" where
  "translation m = snd m"

definition identity3 :: mat3 where
  "identity3 = (Vector 1 0 0, Vector 0 1 0, Vector 0 0 1)"

definition identity4 :: mat4 where
  "identity4 = (identity3, 0)"

text \<open>\<^verbatim>\<open>m @ v\<close> and \<^verbatim>\<open>a @ b\<close>\<close>

definition mat3_apply :: "mat3 \<Rightarrow> vec \<Rightarrow> vec" where
  "mat3_apply m v = (case m of (x, y, z) \<Rightarrow> smul x (vx v) + smul y (vy v) + smul z (vz v))"

definition mat3_mul :: "mat3 \<Rightarrow> mat3 \<Rightarrow> mat3" where
  "mat3_mul a b = (case b of (x, y, z) \<Rightarrow> (mat3_apply a x, mat3_apply a y, mat3_apply a z))"

definition mat4_apply :: "mat4 \<Rightarrow> vec \<Rightarrow> vec" where
  "mat4_apply m v = mat3_apply (to_3x3 m) v + translation m"

definition mat4_mul :: "mat4 \<Rightarrow> mat4 \<Rightarrow> mat4" where
  "mat4_mul a b =
     (mat3_mul (to_3x3 a) (to_3x3 b), mat3_apply (to_3x3 a) (translation b) + translation a)"

text \<open>The inverse, by the cross products of the columns over the determinant. A singular
  matrix has none; the value here is then the zero matrix.\<close>

definition determinant :: "mat3 \<Rightarrow> real" where
  "determinant m = (case m of (x, y, z) \<Rightarrow> dot x (cross y z))"

definition mat3_inverted :: "mat3 \<Rightarrow> mat3" where
  "mat3_inverted m =
     (case m of (x, y, z) \<Rightarrow>
        let d = determinant m;
            r1 = smul (cross y z) (1 / d);
            r2 = smul (cross z x) (1 / d);
            r3 = smul (cross x y) (1 / d)
        in (Vector (vx r1) (vx r2) (vx r3),
            Vector (vy r1) (vy r2) (vy r3),
            Vector (vz r1) (vz r2) (vz r3)))"

definition mat4_inverted :: "mat4 \<Rightarrow> mat4" where
  "mat4_inverted m =
     (let a = mat3_inverted (to_3x3 m) in (a, - mat3_apply a (translation m)))"

text \<open>The scale the host reads off a 3x3 matrix: the lengths of the columns, negated for
  a matrix that flips the orientation.\<close>

definition to_scale :: "mat3 \<Rightarrow> vec" where
  "to_scale m =
     (case m of (x, y, z) \<Rightarrow>
        let size = Vector (vlength x) (vlength y) (vlength z)
        in if determinant (normalized x, normalized y, normalized z) < 0 then - size
           else size)"

subsection \<open>Errors and custom properties\<close>

datatype error = KeyError | TypeError | AttributeError | ReferenceError

text \<open>Sequencing of fallible steps: the first exception ends the computation.\<close>

definition bind :: "error + 'a \<Rightarrow> ('a \<Rightarrow> error + 'b) \<Rightarrow> error + 'b" where
  "bind m f = (case m of Inl e \<Rightarrow> Inl e | Inr x \<Rightarrow> f x)"

datatype idprop = IDInt int | IDFloat real | IDArray vec

type_synonym idprops = "string \<Rightarrow> idprop option"

text \<open>\<^verbatim>\<open>obj[key]\<close>\<close>

definition getitem :: "idprops \<Rightarrow> string \<Rightarrow> error + idprop" where
  "getitem ps k = (case ps k of None \<Rightarrow> Inl KeyError | Some v \<Rightarrow> Inr v)"

text \<open>\<^verbatim>\<open>obj.get(key, default)\<close>\<close>

definition get_default :: "idprops \<Rightarrow> string \<Rightarrow> idprop \<Rightarrow> idprop" where
  "get_default ps k d = (case ps k of None \<Rightarrow> d | Some v \<Rightarrow> v)"

text \<open>\<^verbatim>\<open>Vector(p)\<close> of a property value.\<close>

definition to_Vector :: "idprop \<Rightarrow> error + vec" where
  "to_Vector p = (case p of IDArray v \<Rightarrow> Inr v | _ \<Rightarrow> Inl TypeError)"

text \<open>A property value used as a number in float arithmetic.\<close>

definition to_float :: "idprop \<Rightarrow> error + real" where
  "to_float p = (case p of IDInt n \<Rightarrow> Inr (of_int n) | IDFloat r \<Rightarrow> Inr r
                 | IDArray _ \<Rightarrow> Inl TypeError)"

text \<open>\<^verbatim>\<open>int(p)\<close>: a float is truncated towards zero.\<close>

definition to_int :: "idprop \<Rightarrow> error + int" where
  "to_int p = (case p of IDInt n \<Rightarrow> Inr n
               | IDFloat r \<Rightarrow> Inr (if 0 \<le> r then \<lfloor>r\<rfloor> else \<lceil>r\<rceil>)
               | IDArray _ \<Rightarrow> Inl TypeError)"

text \<open>Truth value of \<^verbatim>\<open>obj.get(key)\<close>: a missing key gives \<^verbatim>\<open>None\<close>.\<close>

definition truthy :: "idprop option \<Rightarrow> bool" where
  "truthy p = (case p of None \<Rightarrow> False | Some (IDInt n) \<Rightarrow> n \<noteq> 0
               | Some (IDFloat r) \<Rightarrow> r \<noteq> 0 | Some (IDArray _) \<Rightarrow> True)"

subsection \<open>Objects and the world\<close>

type_synonym oid = nat

datatype handle_type = FREE | ALIGNED | VECTOR | AUTO

record bezier_point =
  co :: vec
  handle_left :: vec
  handle_right :: vec
  handle_left_type :: handle_type
  handle_right_type :: handle_type

record spline =
  bezier_points :: "bezier_point list"

record curve =
  dimensions :: string
  fill_mode :: string
  bevel_depth :: real
  bevel_depth_driver :: "(oid \<times> string) option"
  resolution_u :: int
  splines :: "spline list"

record face =
  select :: bool
  calc_center_median :: vec
  normal :: vec

datatype fit_type = FIT_CURVE | FIXED_COUNT | FIT_LENGTH

datatype modifier_type = ARRAY | OTHER_MODIFIER

record modifier =
  mod_type :: modifier_type
  fit_type :: fit_type
  count :: int

datatype obj_data = Curve curve | Mesh "face list" | NoData

datatype obj_type = MESH | CURVE | EMPTY

datatype obj_mode = OBJECT | EDIT

record object =
  name :: string
  mode :: obj_mode
  props :: idprops
  parent :: "oid option"
  matrix_parent_inverse :: mat4
  location :: vec
  scale :: vec
  matrix_world :: mat4
  data :: obj_data
  modifiers :: "modifier list"

text \<open>\<^verbatim>\<open>obj.type\<close> follows the kind of data block.\<close>

definition type :: "object \<Rightarrow> obj_type" where
  "type ob = (case data ob of Curve _ \<Rightarrow> CURVE | Mesh _ \<Rightarrow> MESH | NoData \<Rightarrow> EMPTY)"

record world =
  objects :: "oid \<Rightarrow> object option"
  next_id :: oid
  scene_objects :: "oid list"
  cables_collection :: "oid list option"

text \<open>Apply an update to every child of \<open>p\<close> (a loop over \<^verbatim>\<open>obj.children\<close> whose body
  touches only the child of the iteration; the host keeps the parent relation free of
  cycles, so the parent is not among its children).\<close>

definition map_children :: "oid \<Rightarrow> (object \<Rightarrow> object) \<Rightarrow> world \<Rightarrow> world" where
  "map_children p f w =
     w\<lparr>objects := (\<lambda>i. case objects w i of None \<Rightarrow> None
                        | Some ob \<Rightarrow> if parent ob = Some p then Some (f ob) else Some ob)\<rparr>"

definition set_object :: "oid \<Rightarrow> object \<Rightarrow> world \<Rightarrow> world" where
  "set_object i ob w = w\<lparr>objects := (objects w)(i \<mapsto> ob)\<rparr>"

text \<open>\<^verbatim>\<open>s.startswith(p)\<close>\<close>

definition startswith :: "string \<Rightarrow> string \<Rightarrow> bool" where
  "startswith s p = (take (length p) s = p)"

subsection \<open>End cap orientation\<close>

text \<open>The rotation built from a Z axis, as the three places of the source that build it do:
  \<^verbatim>\<open>Matrix((x_axis, y_axis, z_axis)).transposed()\<close> has the axes as columns, and
  \<^verbatim>\<open>Matrix.Translation(position) @ rot_matrix\<close> is the affine matrix with that 3x3 part
  and the translation \<open>position\<close>.\<close>

definition rot_matrix :: "vec \<Rightarrow> mat3" where
  "rot_matrix z_axis =
     (let x_axis = Vector 1 0 0;
          x_axis = (if \<bar>dot z_axis x_axis\<bar> > 0.9 then Vector 0 1 0 else x_axis);
          y_axis = normalized (cross z_axis x_axis);
          x_axis = normalized (cross y_axis z_axis)
      in (x_axis, y_axis, z_axis))"

text \<open>The matrix that takes the coordinates relative to the parent to world coordinates:
  the world matrix of the parent times the parent inverse matrix of the child.\<close>

definition parent_matrix :: "world \<Rightarrow> object \<Rightarrow> mat4 option" where
  "parent_matrix w ob =
     (case parent ob of None \<Rightarrow> None
      | Some p \<Rightarrow>
        (case objects w p of None \<Rightarrow> None
         | Some par \<Rightarrow> Some (mat4_mul (matrix_world par) (matrix_parent_inverse ob))))"

text \<open>\<^verbatim>\<open>obj.matrix_world = m\<close>: the host stores the matrix and sets the location and the
  scale of the object to those of the matrix relative to the parent.\<close>

definition set_matrix_world :: "world \<Rightarrow> mat4 \<Rightarrow> object \<Rightarrow> object" where
  "set_matrix_world w m ob =
     (let rmat = (case parent_matrix w ob of None \<Rightarrow> m
                  | Some pm \<Rightarrow> mat4_mul (mat4_inverted pm) m)
      in ob\<lparr>matrix_world := m, location := translation rmat,
            scale := to_scale (to_3x3 rmat)\<rparr>)"

text \<open>The body of the loop of \<^verbatim>\<open>update_end_cap_orientations\<close> for one child.\<close>

definition orient_child :: "world \<Rightarrow> bezier_point list \<Rightarrow> object \<Rightarrow> object" where
  "orient_child w bps child =
     (if startswith (name child) ''Cap_Start'' then
        (let start_point = bps ! 0;
             tangent = normalized (handle_right start_point - co start_point);
             position = location child;
             scale0 = scale child
         in (set_matrix_world w (rot_matrix tangent, position) child)\<lparr>scale := scale0\<rparr>)
      else if startswith (name child) ''Cap_End'' then
        (let end_point = bps ! 1;
             tangent = normalized (co end_point - handle_left end_point);
             position = location child;
             scale0 = scale child
         in (set_matrix_world w (rot_matrix tangent, position) child)\<lparr>scale := scale0\<rparr>)
      else child)"

definition update_end_cap_orientations :: "oid \<Rightarrow> world \<Rightarrow> error + world" where
  "update_end_cap_orientations cid w =
     (case objects w cid of None \<Rightarrow> Inl ReferenceError
      | Some curve_obj \<Rightarrow>
        (case data curve_obj of
           Curve cu \<Rightarrow>
             if length (splines cu) = 0 then Inr w
             else let spl = splines cu ! 0 in
               if length (bezier_points spl) < 2 then Inr w
               else Inr (map_children cid (orient_child w (bezier_points spl)) w)
         | _ \<Rightarrow> Inl AttributeError))"

subsection \<open>Cable handles\<close>

text \<open>The normal after \<^verbatim>\<open>normalized()\<close> and the check for a valid normal.\<close>

definition valid_normal :: "vec \<Rightarrow> vec" where
  "valid_normal n = (let n = normalized n in if vlength n < 0.001 then Vector 0 0 1 else n)"

definition update_cable_handles :: "oid \<Rightarrow> world \<Rightarrow> error + world" where
  "update_cable_handles cid w =
     (case objects w cid of None \<Rightarrow> Inl ReferenceError
      | Some curve_obj \<Rightarrow>
        if props curve_obj ''start_pos'' = None then Inr w
        else
        (case data curve_obj of
           Curve cu \<Rightarrow>
             if length (splines cu) = 0 then Inr w
             else let spl = splines cu ! 0; bps = bezier_points spl in
               if length bps < 2 then Inr w
               else
                 bind (bind (getitem (props curve_obj) ''start_pos'') to_Vector) (\<lambda>start_pos.
                 bind (bind (getitem (props curve_obj) ''end_pos'') to_Vector) (\<lambda>end_pos.
                 bind (bind (getitem (props curve_obj) ''start_normal'') to_Vector) (\<lambda>sn.
                 bind (bind (getitem (props curve_obj) ''end_normal'') to_Vector) (\<lambda>en.
                 let start_normal = valid_normal sn;
                     end_normal = valid_normal en;
                     distance = vlength (end_pos - start_pos);
                     handle_length = distance * 0.4;
                     sag = get_default (props curve_obj) ''cable_sag'' (IDFloat 0.0);
                     direction = normalized (end_pos - start_pos);
                     start_alignment = dot start_normal direction;
                     end_alignment = dot end_normal (- direction);
                     start_handle_dir = (if start_alignment < - 0.3 then - start_normal
                                         else start_normal);
                     end_handle_dir = (if end_alignment < - 0.3 then - end_normal
                                       else end_normal)
                 in
                 bind (to_float sag) (\<lambda>sag.
                 let sag_vector = smul (smul (Vector 0 0 (- 1)) distance) sag;
                     p0 = (bps ! 0)\<lparr>
                       handle_left := start_pos - smul start_handle_dir (handle_length * 0.3),
                       handle_right := start_pos + smul start_handle_dir handle_length
                                         + smul sag_vector 0.5\<rparr>;
                     p1 = (bps ! 1)\<lparr>
                       handle_left := end_pos + smul end_handle_dir handle_length
                                        + smul sag_vector 0.5,
                       handle_right := end_pos - smul end_handle_dir (handle_length * 0.3)\<rparr>;
                     spl' = spl\<lparr>bezier_points := bps[0 := p0, 1 := p1]\<rparr>;
                     cu' = cu\<lparr>splines := (splines cu)[0 := spl']\<rparr>;
                     w' = set_object cid (curve_obj\<lparr>data := Curve cu'\<rparr>) w
                 in update_end_cap_orientations cid w')))))
         | _ \<Rightarrow> Inl AttributeError))"

subsection \<open>Creating a cable\<close>

text \<open>\<^verbatim>\<open>bpy.data.objects.new(name, data)\<close>: a fresh object at the identity transform.\<close>

definition new_object :: "string \<Rightarrow> obj_data \<Rightarrow> object" where
  "new_object nm d =
     \<lparr>name = nm, mode = OBJECT, props = (\<lambda>k. None), parent = None,
      matrix_parent_inverse = identity4, location = 0, scale = Vector 1 1 1,
      matrix_world = identity4, data = d, modifiers = []\<rparr>"

text \<open>A new object enters the data base under a fresh identifier and is linked to the
  collection of the context, which makes it an object of the scene.\<close>

definition link_new :: "object \<Rightarrow> world \<Rightarrow> oid \<times> world" where
  "link_new ob w =
     (next_id w,
      w\<lparr>objects := (objects w)(next_id w \<mapsto> ob), next_id := Suc (next_id w),
        scene_objects := scene_objects w @ [next_id w]\<rparr>)"

text \<open>A point of a new spline, before the add-on sets it.\<close>

definition new_bezier_point :: bezier_point where
  "new_bezier_point =
     \<lparr>co = 0, handle_left = 0, handle_right = 0,
      handle_left_type = ALIGNED, handle_right_type = ALIGNED\<rparr>"

definition setup_cable_drivers :: "oid \<Rightarrow> world \<Rightarrow> error + world" where
  "setup_cable_drivers cid w =
     (case objects w cid of None \<Rightarrow> Inl ReferenceError
      | Some curve_obj \<Rightarrow>
        (case data curve_obj of
           Curve cu \<Rightarrow>
             Inr (set_object cid
                   (curve_obj\<lparr>data := Curve (cu\<lparr>bevel_depth_driver :=
                                                   Some (cid, ''cable_thickness'')\<rparr>)\<rparr>) w)
         | _ \<Rightarrow> Inl AttributeError))"

text \<open>The ranges and descriptions given to \<^verbatim>\<open>id_properties_ui\<close> only affect the host's
  property editor and are not part of the model.\<close>

definition create_curve_between_points ::
  "vec \<Rightarrow> vec \<Rightarrow> vec \<Rightarrow> vec \<Rightarrow> string \<Rightarrow> world \<Rightarrow> error + (oid \<times> world)" where
  "create_curve_between_points start_pos start_normal end_pos end_normal nm w =
     (let start_normal = valid_normal start_normal;
          end_normal = valid_normal end_normal;
          p0 = new_bezier_point\<lparr>co := start_pos, handle_right_type := FREE,
                                 handle_left_type := FREE\<rparr>;
          p1 = new_bezier_point\<lparr>co := end_pos, handle_right_type := FREE,
                                 handle_left_type := FREE\<rparr>;
          curve_data = \<lparr>dimensions = ''3D'', fill_mode = ''FULL'', bevel_depth = 0.05,
                        bevel_depth_driver = None, resolution_u = 12,
                        splines = [\<lparr>bezier_points = [p0, p1]\<rparr>]\<rparr>;
          curve_obj = (new_object nm (Curve curve_data))\<lparr>props :=
            ((\<lambda>k. None)(''is_cable'' \<mapsto> IDInt 1,
               ''cable_thickness'' \<mapsto> IDFloat 0.05,
               ''cable_resolution'' \<mapsto> IDInt 12,
               ''cable_sag'' \<mapsto> IDFloat 0.0,
               ''start_pos'' \<mapsto> IDArray start_pos,
               ''end_pos'' \<mapsto> IDArray end_pos,
               ''start_normal'' \<mapsto> IDArray start_normal,
               ''end_normal'' \<mapsto> IDArray end_normal,
               ''has_end_caps'' \<mapsto> IDInt 0,
               ''end_cap_scale'' \<mapsto> IDFloat 1.0))\<rparr>
      in case link_new curve_obj w of (cid, w1) \<Rightarrow>
           bind (update_cable_handles cid w1) (\<lambda>w2.
           bind (setup_cable_drivers cid w2) (\<lambda>w3. Inr (cid, w3))))"

subsection \<open>Creating an end cap\<close>

datatype cap_type = CYLINDER | SPHERE | CUSTOM

text \<open>The polygons of the generated cone and sphere, their smooth shading and the selection
  that \<^verbatim>\<open>apply_smooth_shading\<close> saves and restores are outside the modelled state: a new
  cap has no selected face, which is all the add-on can read back from it.\<close>

definition create_end_cap ::
  "vec \<Rightarrow> vec \<Rightarrow> cap_type \<Rightarrow> oid option \<Rightarrow> real \<Rightarrow> string \<Rightarrow> world \<Rightarrow> oid option \<times> world" where
  "create_end_cap position nrm cap_type custom_mesh scl nm w =
     (let custom = (case custom_mesh of None \<Rightarrow> None | Some m \<Rightarrow> objects w m);
          cap_obj =
            (if cap_type = CUSTOM \<and> custom \<noteq> None then
               map_option (\<lambda>ob. ob\<lparr>name := nm, mode := OBJECT\<rparr>) custom
             else if cap_type = CYLINDER then Some (new_object nm (Mesh []))
             else if cap_type = SPHERE then Some (new_object nm (Mesh []))
             else None)
      in case cap_obj of None \<Rightarrow> (None, w)
         | Some cap_obj \<Rightarrow>
           (let cap_obj = cap_obj\<lparr>location := position\<rparr>;
                z_axis = normalized nrm;
                cap_obj = set_matrix_world w (rot_matrix z_axis, position) cap_obj;
                cap_obj = cap_obj\<lparr>scale := Vector scl scl scl\<rparr>;
                cap_obj = cap_obj\<lparr>props := (props cap_obj)(''is_end_cap'' \<mapsto> IDInt 1)\<rparr>
            in case link_new cap_obj w of (i, w') \<Rightarrow> (Some i, w')))"

subsection \<open>The scene update handler\<close>

definition update_cap_scale :: "real \<Rightarrow> object \<Rightarrow> object" where
  "update_cap_scale base_scale child =
     (if truthy (props child ''is_end_cap'') then
        (let target_scale = Vector base_scale base_scale base_scale
         in if vlength (scale child - target_scale) > 0.001
            then child\<lparr>scale := target_scale\<rparr> else child)
      else child)"

text \<open>The loop over \<^verbatim>\<open>obj.modifiers\<close>: it ends at the first array modifier.\<close>

fun update_modifiers :: "idprops \<Rightarrow> modifier list \<Rightarrow> error + modifier list" where
  "update_modifiers ps [] = Inr []"
| "update_modifiers ps (m # ms) =
     (if mod_type m = ARRAY then
        (if ps ''array_fit_curve'' \<noteq> None then
           bind (bind (getitem ps ''array_fit_curve'') to_int) (\<lambda>fit_curve.
             if fit_curve \<noteq> 0 then
               Inr ((if fit_type m \<noteq> FIT_CURVE then m\<lparr>fit_type := FIT_CURVE\<rparr> else m) # ms)
             else
               (let m1 = (if fit_type m \<noteq> FIXED_COUNT then m\<lparr>fit_type := FIXED_COUNT\<rparr>
                          else m)
                in if ps ''array_count'' \<noteq> None then
                     bind (bind (getitem ps ''array_count'') to_int) (\<lambda>cnt.
                       Inr ((if count m1 \<noteq> cnt then m1\<lparr>count := cnt\<rparr> else m1) # ms))
                   else Inr (m1 # ms)))
         else Inr (m # ms))
      else bind (update_modifiers ps ms) (\<lambda>ms'. Inr (m # ms')))"

text \<open>The body of the handler's loop for the scene object \<open>i\<close>.\<close>

definition update_object :: "oid \<Rightarrow> world \<Rightarrow> error + world" where
  "update_object i w =
     (case objects w i of None \<Rightarrow> Inr w
      | Some obj \<Rightarrow>
        if type obj = CURVE \<and> props obj ''is_cable'' \<noteq> None then
          bind (if props obj ''cable_resolution'' \<noteq> None then
                  bind (bind (getitem (props obj) ''cable_resolution'') to_int) (\<lambda>res.
                    case data obj of
                      Curve cu \<Rightarrow>
                        Inr (if resolution_u cu \<noteq> res
                             then set_object i (obj\<lparr>data := Curve (cu\<lparr>resolution_u := res\<rparr>)\<rparr>) w
                             else w)
                    | _ \<Rightarrow> Inl AttributeError)
                else Inr w) (\<lambda>w1.
          bind (if props obj ''cable_sag'' \<noteq> None then update_cable_handles i w1
                else Inr w1) (\<lambda>w2.
          if props obj ''cable_thickness'' \<noteq> None \<and> props obj ''end_cap_scale'' \<noteq> None then
            bind (bind (getitem (props obj) ''cable_thickness'') to_float) (\<lambda>thickness.
            bind (bind (getitem (props obj) ''end_cap_scale'') to_float) (\<lambda>cap_scale_mult.
              let base_scale = thickness * 20.0 * cap_scale_mult
              in Inr (map_children i (update_cap_scale base_scale) w2)))
          else Inr w2))
        else if type obj = MESH \<and> props obj ''has_array'' \<noteq> None then
          bind (if props obj ''array_scale'' \<noteq> None then
                  bind (bind (getitem (props obj) ''array_scale'') to_float) (\<lambda>scl.
                    let current_scale = Vector scl scl scl
                    in Inr (if vlength (scale obj - current_scale) > 0.001
                            then obj\<lparr>scale := current_scale\<rparr> else obj))
                else Inr obj) (\<lambda>obj1.
          bind (update_modifiers (props obj) (modifiers obj1)) (\<lambda>ms.
            Inr (set_object i (obj1\<lparr>modifiers := ms\<rparr>) w)))
        else Inr w)"

fun update_objects :: "oid list \<Rightarrow> world \<Rightarrow> error + world" where
  "update_objects [] w = Inr w"
| "update_objects (i # ids) w = bind (update_object i w) (update_objects ids)"

definition cable_update_handler :: "world \<Rightarrow> error + world" where
  "cable_update_handler w = update_objects (scene_objects w) w"

subsection \<open>Operators: context, results and helpers\<close>

datatype connection_mode = SEQUENTIAL | ALL_TO_FIRST

record CableGenProperties =
  thickness :: real
  resolution :: int
  connection_mode :: connection_mode
  add_end_caps :: bool
  end_cap_type :: cap_type
  end_cap_mesh :: "oid option"
  organize_collections :: bool

text \<open>What an operator reads from the host's context: the selection, the active object
  and \<^verbatim>\<open>context.scene.cable_gen_props\<close>.\<close>

record ctx =
  selected_objects :: "oid list"
  active_object :: "oid option"
  cable_gen_props :: CableGenProperties

datatype status = FINISHED | CANCELLED

datatype report_level = INFO | WARNING | ERROR

type_synonym report = "report_level \<times> string"

text \<open>An update of the object \<open>i\<close>, which the caller holds a reference to.\<close>

definition map_object :: "oid \<Rightarrow> (object \<Rightarrow> object) \<Rightarrow> world \<Rightarrow> world" where
  "map_object i f w =
     w\<lparr>objects := (\<lambda>j. if j = i then map_option f (objects w j) else objects w j)\<rparr>"

definition set_prop :: "oid \<Rightarrow> string \<Rightarrow> idprop \<Rightarrow> world \<Rightarrow> world" where
  "set_prop i k v w = map_object i (\<lambda>ob. ob\<lparr>props := (props ob)(k \<mapsto> v)\<rparr>) w"

definition set_parent :: "oid \<Rightarrow> oid \<Rightarrow> world \<Rightarrow> world" where
  "set_parent i p w = map_object i (\<lambda>ob. ob\<lparr>parent := Some p\<rparr>) w"

text \<open>\<^verbatim>\<open>obj.data.resolution_u = res\<close>\<close>

definition set_resolution_u :: "oid \<Rightarrow> int \<Rightarrow> world \<Rightarrow> world" where
  "set_resolution_u i res w =
     map_object i (\<lambda>ob. case data ob of Curve cu \<Rightarrow> ob\<lparr>data := Curve (cu\<lparr>resolution_u := res\<rparr>)\<rparr>
                         | _ \<Rightarrow> ob) w"

text \<open>Decimal digits of a number, for the names built with f-strings.\<close>

fun str_nat :: "nat \<Rightarrow> string" where
  "str_nat n = (if n < 10 then [char_of (48 + n)]
                else str_nat (n div 10) @ [char_of (48 + n mod 10)])"

declare str_nat.simps [simp del]

text \<open>\<^verbatim>\<open>s.replace(old, new)\<close>: every occurrence, from the left, without overlap.\<close>

function replace :: "string \<Rightarrow> string \<Rightarrow> string \<Rightarrow> string" where
  "replace [] old new = (if old = [] then new else [])"
| "replace (c # cs) old new =
     (if old = [] then new @ c # replace cs old new
      else if take (length old) (c # cs) = old
           then new @ replace (drop (length old) (c # cs)) old new
           else c # replace cs old new)"
  by pat_completeness auto
termination
  by (relation "measure (\<lambda>(s, old, new). length s)") auto

subsection \<open>The Generate Cable operator\<close>

text \<open>An entry of \<^verbatim>\<open>faces_data\<close> or \<^verbatim>\<open>centers_data\<close>: the dictionary with the keys
  \<^verbatim>\<open>object\<close>, \<^verbatim>\<open>center\<close> and \<^verbatim>\<open>normal\<close>.\<close>

record face_data =
  fd_object :: oid
  fd_center :: vec
  fd_normal :: vec

definition get_face_center_and_normal :: "object \<Rightarrow> face \<Rightarrow> vec \<times> vec" where
  "get_face_center_and_normal obj f =
     (let matrix = matrix_world obj;
          center = mat4_apply matrix (calc_center_median f);
          nrm = normalized (mat3_apply (to_3x3 matrix) (normal f))
      in (center, nrm))"

definition get_selected_faces :: "ctx \<Rightarrow> world \<Rightarrow> face_data list" where
  "get_selected_faces context w =
     concat (map (\<lambda>i. case objects w i of None \<Rightarrow> []
                  | Some obj \<Rightarrow>
                    (case data obj of
                       Mesh fs \<Rightarrow>
                         if mode obj = EDIT then
                           map (\<lambda>f. case get_face_center_and_normal obj f of (c, n) \<Rightarrow>
                                  \<lparr>fd_object = i, fd_center = c, fd_normal = n\<rparr>)
                               (filter select fs)
                         else []
                     | _ \<Rightarrow> []))
             (selected_objects context))"

definition get_object_centers :: "ctx \<Rightarrow> world \<Rightarrow> face_data list" where
  "get_object_centers context w =
     concat (map (\<lambda>i. case objects w i of None \<Rightarrow> []
                  | Some obj \<Rightarrow>
                    if type obj = MESH then
                      [\<lparr>fd_object = i, fd_center = translation (matrix_world obj),
                        fd_normal = Vector 0 0 1\<rparr>]
                    else [])
             (selected_objects context))"

text \<open>The body shared by the three loops of \<^verbatim>\<open>execute\<close>, which differ in the end points
  and in the names only: create the cable from \<open>a\<close> to \<open>b\<close>, store the thickness and the
  resolution, and add the end caps when asked to.\<close>

definition connect ::
  "CableGenProperties \<Rightarrow> face_data \<Rightarrow> face_data \<Rightarrow> string \<Rightarrow> string \<Rightarrow> string \<Rightarrow> world
     \<Rightarrow> error + (oid \<times> world)" where
  "connect cprops a b cable_name start_name end_name w =
     bind (create_curve_between_points (fd_center a) (fd_normal a) (fd_center b) (fd_normal b)
             cable_name w) (\<lambda>(curve_obj, w1).
       let w2 = set_prop curve_obj ''cable_thickness'' (IDFloat (thickness cprops)) w1;
           w3 = set_prop curve_obj ''cable_resolution'' (IDInt (resolution cprops)) w2;
           w4 = set_resolution_u curve_obj (resolution cprops) w3
       in if add_end_caps cprops then
            (case create_end_cap (fd_center a) (fd_normal a) (end_cap_type cprops)
                    (end_cap_mesh cprops) (thickness cprops * 20.0) start_name w4 of
               (start_cap, w5) \<Rightarrow>
                 let w6 = (case start_cap of None \<Rightarrow> w5
                           | Some c \<Rightarrow> set_prop curve_obj ''has_end_caps'' (IDInt 1)
                                        (set_parent c curve_obj w5))
                 in (case create_end_cap (fd_center b) (fd_normal b) (end_cap_type cprops)
                           (end_cap_mesh cprops) (thickness cprops * 20.0) end_name w6 of
                       (end_cap, w7) \<Rightarrow>
                         Inr (curve_obj,
                              case end_cap of None \<Rightarrow> w7
                              | Some c \<Rightarrow> set_parent c curve_obj w7)))
          else Inr (curve_obj, w4))"

text \<open>The loop \<^verbatim>\<open>for i in range(len(data) - 1)\<close> of the face path and of the
  \<^verbatim>\<open>SEQUENTIAL\<close> mode, over the indices still to visit.\<close>

fun connect_sequential ::
  "CableGenProperties \<Rightarrow> face_data list \<Rightarrow> nat list \<Rightarrow> oid list \<Rightarrow> world
     \<Rightarrow> error + (oid list \<times> world)" where
  "connect_sequential cprops ds [] created_cables w = Inr (created_cables, w)"
| "connect_sequential cprops ds (i # rest) created_cables w =
     bind (connect cprops (ds ! i) (ds ! (i + 1))
             (''Cable_'' @ str_nat (i + 1))
             (''Cap_Start_'' @ str_nat (i + 1))
             (''Cap_End_'' @ str_nat (i + 1)) w) (\<lambda>(curve_obj, w').
       connect_sequential cprops ds rest (created_cables @ [curve_obj]) w')"

text \<open>The loop \<^verbatim>\<open>for i in range(1, len(centers_data))\<close> of the \<^verbatim>\<open>ALL_TO_FIRST\<close> mode.\<close>

fun connect_all_to_first ::
  "CableGenProperties \<Rightarrow> face_data list \<Rightarrow> nat list \<Rightarrow> oid list \<Rightarrow> world
     \<Rightarrow> error + (oid list \<times> world)" where
  "connect_all_to_first cprops ds [] created_cables w = Inr (created_cables, w)"
| "connect_all_to_first cprops ds (i # rest) created_cables w =
     (case objects w (fd_object (ds ! i)) of None \<Rightarrow> Inl ReferenceError
      | Some target \<Rightarrow>
        bind (connect cprops (ds ! 0) (ds ! i)
                (''Cable_to_'' @ name target)
                (''Cap_Start_to_'' @ name target)
                (''Cap_End_to_'' @ name target) w) (\<lambda>(curve_obj, w').
          connect_all_to_first cprops ds rest (created_cables @ [curve_obj]) w'))"

text \<open>The end of \<^verbatim>\<open>execute\<close>: several cables go to the collection named Cables (the
  model tracks the members of that collection only), and the count is reported.\<close>

definition finish_generate ::
  "CableGenProperties \<Rightarrow> oid list \<times> world \<Rightarrow> error + (status \<times> report \<times> oid list \<times> world)" where
  "finish_generate cprops r =
     (case r of (created_cables, w) \<Rightarrow>
        let w' = (if length created_cables > 1 \<and> organize_collections cprops then
                    w\<lparr>cables_collection :=
                        Some ((case cables_collection w of None \<Rightarrow> [] | Some xs \<Rightarrow> xs)
                              @ created_cables)\<rparr>
                  else w)
        in Inr (FINISHED,
                (INFO, str_nat (length created_cables) @ '' cable(s) generated successfully''),
                created_cables, w'))"

definition generate_cable_execute ::
  "ctx \<Rightarrow> world \<Rightarrow> error + (status \<times> report \<times> oid list \<times> world)" where
  "generate_cable_execute context w =
     (let cprops = cable_gen_props context in
      if selected_objects context = [] then
        Inr (CANCELLED, (WARNING, ''No objects selected''), [], w)
      else
        let edit_mode_objects =
              filter (\<lambda>i. case objects w i of None \<Rightarrow> False
                          | Some obj \<Rightarrow> type obj = MESH \<and> mode obj = EDIT)
                     (selected_objects context)
        in if edit_mode_objects \<noteq> [] then
             (let faces_data = get_selected_faces context w in
              if length faces_data < 2 then
                Inr (CANCELLED, (WARNING, ''Select at least 2 faces''), [], w)
              else bind (connect_sequential cprops faces_data [0..<length faces_data - 1] [] w)
                        (finish_generate cprops))
           else
             (let centers_data = get_object_centers context w in
              if length centers_data < 2 then
                Inr (CANCELLED, (WARNING, ''Select at least 2 objects''), [], w)
              else bind (case connection_mode cprops of
                           SEQUENTIAL \<Rightarrow>
                             connect_sequential cprops centers_data
                               [0..<length centers_data - 1] [] w
                         | ALL_TO_FIRST \<Rightarrow>
                             connect_all_to_first cprops centers_data
                               [1..<length centers_data] [] w)
                        (finish_generate cprops)))"

subsection \<open>The Toggle End Caps operator\<close>

text \<open>\<^verbatim>\<open>bpy.data.objects.remove(child, do_unlink=True)\<close> for every child of the cable with a
  true \<^verbatim>\<open>is_end_cap\<close>: the object leaves the data base and the scene, and the host clears
  the references to it.\<close>

definition is_cap_of :: "world \<Rightarrow> oid \<Rightarrow> oid \<Rightarrow> bool" where
  "is_cap_of w cable i =
     (case objects w i of None \<Rightarrow> False
      | Some ob \<Rightarrow> parent ob = Some cable \<and> truthy (props ob ''is_end_cap''))"

definition remove_end_caps :: "oid \<Rightarrow> world \<Rightarrow> world" where
  "remove_end_caps cable w =
     w\<lparr>objects := (\<lambda>i. if is_cap_of w cable i then None
                        else map_option
                          (\<lambda>ob. case parent ob of None \<Rightarrow> ob
                                | Some p \<Rightarrow> if is_cap_of w cable p then ob\<lparr>parent := None\<rparr>
                                            else ob)
                          (objects w i)),
       scene_objects := filter (\<lambda>i. \<not> is_cap_of w cable i) (scene_objects w),
       cables_collection :=
         map_option (filter (\<lambda>i. \<not> is_cap_of w cable i)) (cables_collection w)\<rparr>"

text \<open>The number of caps in the message of the removal and the text of the exception in
  the error message are not modelled. Writing \<^verbatim>\<open>has_end_caps\<close> to a cable that the
  removal has deleted (a cable that is its own end cap) raises.\<close>

text \<open>The body of the \<^verbatim>\<open>try\<close> block once the scale of the caps is computed; an
  exception in it is caught and reported.\<close>

definition add_caps_to_cable ::
  "CableGenProperties \<Rightarrow> oid \<Rightarrow> object \<Rightarrow> vec \<Rightarrow> vec \<Rightarrow> vec \<Rightarrow> vec \<Rightarrow> real \<Rightarrow> world
     \<Rightarrow> status \<times> report \<times> world" where
  "add_caps_to_cable cprops c cable start_pos start_normal end_pos end_normal scl w =
     (case create_end_cap start_pos start_normal (end_cap_type cprops)
             (end_cap_mesh cprops) scl (''Cap_Start_'' @ name cable) w of
        (start_cap, w1) \<Rightarrow>
          let w2 = (case start_cap of None \<Rightarrow> w1 | Some s \<Rightarrow> set_parent s c w1)
          in (case create_end_cap end_pos end_normal (end_cap_type cprops)
                    (end_cap_mesh cprops) scl (''Cap_End_'' @ name cable) w2 of
                (end_cap, w3) \<Rightarrow>
                  let w4 = (case end_cap of None \<Rightarrow> w3 | Some e \<Rightarrow> set_parent e c w3);
                      w5 = set_prop c ''has_end_caps'' (IDInt 1) w4
                  in (case update_end_cap_orientations c w5 of
                        Inl e \<Rightarrow> (CANCELLED, (ERROR, ''Failed to create end caps''), w5)
                      | Inr w6 \<Rightarrow> (FINISHED, (INFO, ''End caps added''), w6))))"

definition toggle_end_caps_execute :: "ctx \<Rightarrow> world \<Rightarrow> error + (status \<times> report \<times> world)" where
  "toggle_end_caps_execute context w =
     (let cprops = cable_gen_props context in
      case (case active_object context of None \<Rightarrow> None
            | Some c \<Rightarrow> map_option (Pair c) (objects w c)) of
        None \<Rightarrow> Inr (CANCELLED, (WARNING, ''Select a cable''), w)
      | Some (c, cable) \<Rightarrow>
        if type cable \<noteq> CURVE \<or> props cable ''is_cable'' = None then
          Inr (CANCELLED, (WARNING, ''Select a cable''), w)
        else
          let has_caps = get_default (props cable) ''has_end_caps'' (IDInt 0) in
          if truthy (Some has_caps) then
            (let w1 = remove_end_caps c w in
             if objects w1 c = None then Inl ReferenceError
             else Inr (FINISHED, (INFO, ''Removed end caps''),
                       set_prop c ''has_end_caps'' (IDInt 0) w1))
          else if props cable ''start_pos'' = None \<or> props cable ''end_pos'' = None
          then Inr (CANCELLED, (WARNING, ''Cable missing position data''), w)
          else
            bind (bind (getitem (props cable) ''start_pos'') to_Vector) (\<lambda>start_pos.
            bind (bind (getitem (props cable) ''end_pos'') to_Vector) (\<lambda>end_pos.
            bind (bind (getitem (props cable) ''start_normal'') to_Vector) (\<lambda>start_normal.
            bind (bind (getitem (props cable) ''end_normal'') to_Vector) (\<lambda>end_normal.
              let thickness = get_default (props cable) ''cable_thickness'' (IDFloat 0.05);
                  cap_scale = get_default (props cable) ''end_cap_scale'' (IDFloat 1.0)
              in case bind (to_float thickness) (\<lambda>t. bind (to_float cap_scale) (\<lambda>cs.
                        Inr (t * 20.0 * cs))) of
                   Inl e \<Rightarrow> Inr (CANCELLED, (ERROR, ''Failed to create end caps''), w)
                 | Inr scl \<Rightarrow>
                     Inr (add_caps_to_cable cprops c cable start_pos start_normal
                            end_pos end_normal scl w))))))"

subsection \<open>The Reverse Direction operator\<close>

text \<open>\<^verbatim>\<open>cable[key][:]\<close>: the components of an array property.\<close>

definition slice_all :: "idprop \<Rightarrow> error + vec" where
  "slice_all p = (case p of IDArray v \<Rightarrow> Inr v | _ \<Rightarrow> Inl TypeError)"

text \<open>The three renaming loops on one child: the start caps are the children whose name
  started with \<^verbatim>\<open>Cap_Start\<close> before the first loop, the end caps the others whose name
  started with \<^verbatim>\<open>Cap_End\<close>.\<close>

definition reverse_cap_name :: "string \<Rightarrow> string" where
  "reverse_cap_name n =
     (if startswith n ''Cap_Start'' then
        replace (replace n ''Cap_Start'' ''Cap_End_temp'') ''Cap_End_temp'' ''Cap_End''
      else if startswith n ''Cap_End'' then replace n ''Cap_End'' ''Cap_Start''
      else n)"

definition reverse_cable_execute :: "ctx \<Rightarrow> world \<Rightarrow> error + (status \<times> report \<times> world)" where
  "reverse_cable_execute context w =
     (case (case active_object context of None \<Rightarrow> None
            | Some c \<Rightarrow> map_option (Pair c) (objects w c)) of
        None \<Rightarrow> Inr (CANCELLED, (WARNING, ''Select a cable''), w)
      | Some (c, cable) \<Rightarrow>
        if type cable \<noteq> CURVE \<or> props cable ''is_cable'' = None then
          Inr (CANCELLED, (WARNING, ''Select a cable''), w)
        else if props cable ''start_pos'' \<noteq> None \<and> props cable ''end_pos'' \<noteq> None then
          bind (bind (getitem (props cable) ''start_pos'') slice_all) (\<lambda>start_pos.
          bind (bind (getitem (props cable) ''end_pos'') slice_all) (\<lambda>end_pos.
          bind (bind (getitem (props cable) ''start_normal'') slice_all) (\<lambda>start_normal.
          bind (bind (getitem (props cable) ''end_normal'') slice_all) (\<lambda>end_normal.
            let w1 = set_prop c ''start_pos'' (IDArray end_pos) w;
                w2 = set_prop c ''end_pos'' (IDArray start_pos) w1;
                w3 = set_prop c ''start_normal'' (IDArray end_normal) w2;
                w4 = set_prop c ''end_normal'' (IDArray start_normal) w3
            in bind (update_cable_handles c w4) (\<lambda>w5.
               let w6 = map_children c (\<lambda>cap. cap\<lparr>name := reverse_cap_name (name cap)\<rparr>) w5
               in bind (update_end_cap_orientations c w6) (\<lambda>w7.
                    Inr (FINISHED, (INFO, ''Cable direction reversed''), w7)))))))
        else Inr (CANCELLED, (WARNING, ''Cable missing position data''), w))"

subsection \<open>Observations and example worlds\<close>

text \<open>The bezier point \<open>k\<close> of the first spline of the object \<open>i\<close>.\<close>

definition first_spline_point :: "world \<Rightarrow> oid \<Rightarrow> nat \<Rightarrow> bezier_point option" where
  "first_spline_point w i k =
     (case objects w i of None \<Rightarrow> None
      | Some ob \<Rightarrow>
        (case data ob of
           Curve cu \<Rightarrow>
             (case splines cu of [] \<Rightarrow> None
              | spl # _ \<Rightarrow> if k < length (bezier_points spl)
                           then Some (bezier_points spl ! k) else None)
         | _ \<Rightarrow> None))"

definition demo_cable :: object where
  "demo_cable =
     \<lparr>name = ''Cable_1'', mode = OBJECT,
      props = (\<lambda>k. None)(''is_cable'' \<mapsto> IDInt 1,
               ''cable_thickness'' \<mapsto> IDFloat 0.05,
               ''cable_resolution'' \<mapsto> IDInt 12,
               ''cable_sag'' \<mapsto> IDFloat 0.5,
               ''start_pos'' \<mapsto> IDArray (Vector 0 0 0),
               ''end_pos'' \<mapsto> IDArray (Vector 3 4 0),
               ''start_normal'' \<mapsto> IDArray (Vector 0 0 1),
               ''end_normal'' \<mapsto> IDArray (Vector 0.6 0.8 0),
               ''has_end_caps'' \<mapsto> IDInt 1,
               ''end_cap_scale'' \<mapsto> IDFloat 1.0),
      parent = None, matrix_parent_inverse = identity4, location = 0,
      scale = Vector 1 1 1, matrix_world = identity4,
      data = Curve \<lparr>dimensions = ''3D'', fill_mode = ''FULL'', bevel_depth = 0.05,
                     bevel_depth_driver = None, resolution_u = 12,
                     splines = [\<lparr>bezier_points =
                        [\<lparr>co = Vector 0 0 0, handle_left = Vector 0 0 (- 1),
                          handle_right = Vector 0 0 1,
                          handle_left_type = FREE, handle_right_type = FREE\<rparr>,
                         \<lparr>co = Vector 3 4 0, handle_left = Vector 3 4 1,
                          handle_right = Vector 3 4 (- 1),
                          handle_left_type = FREE, handle_right_type = FREE\<rparr>]\<rparr>]\<rparr>,
      modifiers = []\<rparr>"

text \<open>The example cable with a start normal that is not a unit vector and a degenerate
  end normal, as an edit of the metadata leaves them.\<close>

definition raw_cable :: object where
  "raw_cable =
     demo_cable\<lparr>props := (props demo_cable)(''start_normal'' \<mapsto> IDArray (Vector 0 0 2),
                                              ''end_normal'' \<mapsto> IDArray (Vector 0 0 0))\<rparr>"

definition raw_world :: world where
  "raw_world =
     \<lparr>objects = (\<lambda>i. None)(0 \<mapsto> raw_cable), next_id = 1, scene_objects = [0],
      cables_collection = None\<rparr>"

definition demo_world :: world where
  "demo_world =
     \<lparr>objects = (\<lambda>i. None)(0 \<mapsto> demo_cable), next_id = 1, scene_objects = [0],
      cables_collection = None\<rparr>"

text \<open>The metadata of a cable with its two ends exchanged.\<close>

definition swap_ends :: "idprops \<Rightarrow> idprops" where
  "swap_ends ps = ps(''start_pos'' := ps ''end_pos'', ''end_pos'' := ps ''start_pos'',
                     ''start_normal'' := ps ''end_normal'', ''end_normal'' := ps ''start_normal'')"




definition demo_cap :: "string \<Rightarrow> vec \<Rightarrow> object" where
  "demo_cap nm loc =
     \<lparr>name = nm, mode = OBJECT, props = (\<lambda>k. None)(''is_end_cap'' \<mapsto> IDInt 1),
      parent = Some 0, matrix_parent_inverse = identity4, location = loc,
      scale = Vector 1 1 1, matrix_world = (identity3, loc),
      data = Mesh [], modifiers = []\<rparr>"

text \<open>The example cable with \<^verbatim>\<open>has_end_caps\<close> set to \<open>hc\<close>, a start cap at \<open>loc\<close> and an
  end cap.\<close>

definition capped_world :: "idprop \<Rightarrow> vec \<Rightarrow> world" where
  "capped_world hc loc =
     \<lparr>objects = (\<lambda>i. None)(
        0 \<mapsto> demo_cable\<lparr>props := (props demo_cable)(''has_end_caps'' \<mapsto> hc)\<rparr>,
        1 \<mapsto> demo_cap ''Cap_Start_Cable_1'' loc,
        2 \<mapsto> demo_cap ''Cap_End_Cable_1'' (Vector 3 4 0)),
      next_id = 3, scene_objects = [0, 1, 2], cables_collection = None\<rparr>"



definition demo_props :: CableGenProperties where
  "demo_props = \<lparr>thickness = 0.05, resolution = 12, connection_mode = SEQUENTIAL,
     add_end_caps = True, end_cap_type = CYLINDER, end_cap_mesh = None,
     organize_collections = True\<rparr>"

definition demo_ctx :: ctx where
  "demo_ctx = \<lparr>selected_objects = [0], active_object = Some 0, cable_gen_props = demo_props\<rparr>"

text \<open>The selection as the Generate Cable operator judges it: a selected mesh in edit mode
  makes it take the faces, otherwise it takes the selected mesh objects.\<close>

definition in_edit_mode :: "world \<Rightarrow> oid \<Rightarrow> bool" where
  "in_edit_mode w i =
     (case objects w i of None \<Rightarrow> False | Some obj \<Rightarrow> type obj = MESH \<and> mode obj = EDIT)"

definition selection_insufficient :: "ctx \<Rightarrow> world \<Rightarrow> bool" where
  "selection_insufficient context w =
     (selected_objects context = [] \<or>
      (if list_ex (in_edit_mode w) (selected_objects context)
       then length (get_selected_faces context w) < 2
       else length (get_object_centers context w) < 2))"

text \<open>The cable \<open>c\<close> connects the item \<open>a\<close> to the item \<open>b\<close>: its metadata and the points
  of its curve hold the two centers, and its metadata the two normals.\<close>

definition connects :: "world \<Rightarrow> oid \<Rightarrow> face_data \<Rightarrow> face_data \<Rightarrow> bool" where
  "connects w c a b =
     (case objects w c of None \<Rightarrow> False
      | Some ob \<Rightarrow>
          type ob = CURVE \<and> props ob ''is_cable'' = Some (IDInt 1) \<and>
          props ob ''start_pos'' = Some (IDArray (fd_center a)) \<and>
          props ob ''end_pos'' = Some (IDArray (fd_center b)) \<and>
          props ob ''start_normal'' = Some (IDArray (valid_normal (fd_normal a))) \<and>
          props ob ''end_normal'' = Some (IDArray (valid_normal (fd_normal b))) \<and>
          map_option co (first_spline_point w c 0) = Some (fd_center a) \<and>
          map_option co (first_spline_point w c 1) = Some (fd_center b))"

definition demo_mesh :: "string \<Rightarrow> vec \<Rightarrow> object" where
  "demo_mesh nm loc =
     (new_object nm (Mesh []))\<lparr>location := loc, matrix_world := (identity3, loc)\<rparr>"

definition mesh_world :: world where
  "mesh_world =
     \<lparr>objects = (\<lambda>i. None)(0 \<mapsto> demo_mesh ''Box'' (Vector 0 0 0),
                               1 \<mapsto> demo_mesh ''Lamp'' (Vector 1 0 0),
                               2 \<mapsto> demo_mesh ''Plug'' (Vector 1 2 0)),
      next_id = 3, scene_objects = [0, 1, 2], cables_collection = None\<rparr>"

definition mesh_ctx :: ctx where
  "mesh_ctx = \<lparr>selected_objects = [0, 1, 2], active_object = Some 0,
                cable_gen_props = demo_props\<rparr>"


text \<open>What the rest of the loop body may do to the world once the cable \<open>c\<close> is created.\<close>

definition grows :: "oid \<Rightarrow> world \<Rightarrow> world \<Rightarrow> bool" where
  "grows c w w' \<longleftrightarrow>
     next_id w \<le> next_id w' \<and>
     (\<forall>j. j < next_id w \<and> j \<noteq> c \<longrightarrow> objects w' j = objects w j) \<and>
     (\<forall>a b. connects w c a b \<longrightarrow> connects w' c a b) \<and>
     (\<forall>ob. objects w c = Some ob \<longrightarrow> (\<exists>ob'. objects w' c = Some ob' \<and> parent ob' = parent ob)) \<and>
     (\<forall>j. objects w j \<noteq> None \<longrightarrow> objects w' j \<noteq> None)"

section \<open>Properties\<close>

lemma bind_Inr [simp]: "bind (Inr x) f = f x"
  by (simp add: bind_def)

lemma bind_Inl [simp]: "bind (Inl e) f = Inl e"
  by (simp add: bind_def)

lemma dot_self_zero: "dot v v = 0 \<longleftrightarrow> v = 0"
proof (cases v)
  case (Vector a b c)
  have "a * a + b * b + c * c = 0 \<longleftrightarrow> a = 0 \<and> b = 0 \<and> c = 0"
    using sum_squares_eq_zero_iff[of a b] sum_squares_eq_zero_iff[of "sqrt (a * a + b * b)" c]
    by (auto simp: add_nonneg_eq_0_iff)
  then show ?thesis using Vector by (simp add: dot_def zero_vec_def)
qed

lemma dot_self_nonneg: "0 \<le> dot v v"
  by (cases v) (simp add: dot_def)

lemma vlength_zero: "vlength v = 0 \<longleftrightarrow> v = 0"
  by (simp add: vlength_def dot_self_zero)

lemma vlength_normalized: "v \<noteq> 0 \<Longrightarrow> vlength (normalized v) = 1"
proof -
  assume nz: "v \<noteq> 0"
  then have l: "vlength v \<noteq> 0" by (simp add: vlength_zero)
  have pos: "0 \<le> vlength v" by (simp add: vlength_def dot_self_nonneg)
  have d: "dot (smul v c) (smul v c) = c\<^sup>2 * dot v v" for c
    by (cases v) (simp add: dot_def smul_def power2_eq_square algebra_simps)
  have "vlength (smul v (1 / vlength v)) = \<bar>1 / vlength v\<bar> * vlength v"
    unfolding vlength_def[of "smul v (1 / vlength v)"] d
    by (simp add: real_sqrt_mult vlength_def[symmetric])
  also have "\<dots> = 1" using l pos by simp
  finally show ?thesis using l by (simp add: normalized_def)
qed

lemma normalized_zero: "normalized 0 = 0"
  by (simp add: normalized_def vlength_zero)

lemma vlength_normalized_unit: "vlength v = 1 \<Longrightarrow> normalized v = v"
  by (cases v) (simp add: normalized_def smul_def)

lemma valid_normal_unit: "vlength v = 1 \<Longrightarrow> valid_normal v = v"
  by (simp add: valid_normal_def vlength_normalized_unit Let_def)

lemma objects_map_children:
  "objects (map_children p f w) i =
     (case objects w i of None \<Rightarrow> None
      | Some ob \<Rightarrow> if parent ob = Some p then Some (f ob) else Some ob)"
  by (simp add: map_children_def)

lemma data_orient_child [simp]: "data (orient_child w0 bps c) = data c"
  by (simp add: orient_child_def set_matrix_world_def Let_def)

lemma first_spline_point_map_children_orient:
  "first_spline_point (map_children p (orient_child w0 bps) w) i k = first_spline_point w i k"
  by (simp add: first_spline_point_def objects_map_children split: option.splits)

lemma update_end_cap_orientations_point:
  "update_end_cap_orientations cid w = Inr w' \<Longrightarrow>
   first_spline_point w' i k = first_spline_point w i k"
  by (auto simp: update_end_cap_orientations_def first_spline_point_map_children_orient Let_def
      split: option.splits obj_data.splits if_splits)

lemma update_end_cap_orientations_curve:
  "objects w cid = Some ob \<Longrightarrow> data ob = Curve cu \<Longrightarrow>
   \<exists>w'. update_end_cap_orientations cid w = Inr w'"
  by (simp add: update_end_cap_orientations_def Let_def)

lemma vlength_z_unit: "vlength (Vector 0 0 1) = 1"
  by (simp add: vlength_def dot_def)

lemma valid_normal_length: "vlength (valid_normal n) = 1"
proof (cases "n = 0")
  case True
  then show ?thesis
    by (simp add: valid_normal_def normalized_zero vlength_zero[of 0, simplified] vlength_z_unit)
next
  case False
  then show ?thesis
    by (simp add: valid_normal_def vlength_normalized Let_def)
qed

text \<open>
  Claim C1. For a cable curve that carries \<^verbatim>\<open>start_pos\<close>, \<^verbatim>\<open>end_pos\<close>,
  \<^verbatim>\<open>start_normal\<close>, \<^verbatim>\<open>end_normal\<close> and \<^verbatim>\<open>cable_sag\<close> and whose first spline has
  at least two bezier points, \<^verbatim>\<open>update_cable_handles\<close> returns and the four handles of the
  first two points are the stated function of the metadata: with \<open>d\<close> the distance of the
  end points, \<open>L = 0.4 d\<close>, \<open>s = (0,0,-1) d sag\<close>, and each handle direction the stored
  normal, negated exactly when its dot product with the direction from start to end
  (for the end normal: the reverse direction) is below \<open>-0.3\<close>. The stored normal is taken
  normalised, with \<open>(0,0,1)\<close> in place of a normal that is shorter than 0.001 after the
  normalisation: the direction is always a unit vector, and it is the stored normal
  itself when that is a unit vector.
\<close>

theorem update_cable_handles_from_metadata:
  assumes ob: "objects w cid = Some ob" and cu: "data ob = Curve cu"
    and spl: "splines cu = spl # rest" and len: "2 \<le> length (bezier_points spl)"
    and sp: "props ob ''start_pos'' = Some (IDArray start_pos)"
    and ep: "props ob ''end_pos'' = Some (IDArray end_pos)"
    and sn: "props ob ''start_normal'' = Some (IDArray sn)"
    and en: "props ob ''end_normal'' = Some (IDArray en)"
    and sg: "props ob ''cable_sag'' = Some sagp" and sgf: "to_float sagp = Inr sag"
  shows "\<exists>w' p0 p1.
     update_cable_handles cid w = Inr w' \<and>
     first_spline_point w' cid 0 = Some p0 \<and> first_spline_point w' cid 1 = Some p1 \<and>
     (let d = vlength (end_pos - start_pos);
          L = 0.4 * d;
          s = smul (Vector 0 0 (- 1)) (d * sag);
          direction = normalized (end_pos - start_pos);
          start_normal = (if vlength (normalized sn) < 0.001 then Vector 0 0 1
                          else normalized sn);
          end_normal = (if vlength (normalized en) < 0.001 then Vector 0 0 1
                        else normalized en);
          start_dir = (if dot start_normal direction < - 0.3 then - start_normal
                       else start_normal);
          end_dir = (if dot end_normal (- direction) < - 0.3 then - end_normal
                     else end_normal)
      in handle_right p0 = start_pos + smul start_dir L + smul s 0.5 \<and>
         handle_left p0 = start_pos - smul start_dir (0.3 * L) \<and>
         handle_left p1 = end_pos + smul end_dir L + smul s 0.5 \<and>
         handle_right p1 = end_pos - smul end_dir (0.3 * L) \<and>
         vlength start_normal = 1 \<and> vlength end_normal = 1 \<and>
         (vlength sn = 1 \<longrightarrow> start_normal = sn) \<and>
         (vlength en = 1 \<longrightarrow> end_normal = en))"
proof -
  define vs where "vs = valid_normal sn"
  define ve where "ve = valid_normal en"
  define d where "d = vlength (end_pos - start_pos)"
  define dir where "dir = normalized (end_pos - start_pos)"
  define sd where "sd = (if dot vs dir < - 0.3 then - vs else vs)"
  define ed where "ed = (if dot ve (- dir) < - 0.3 then - ve else ve)"
  define s where "s = smul (smul (Vector 0 0 (- 1)) d) sag"
  define p0 where "p0 = (bezier_points spl ! 0)\<lparr>
       handle_left := start_pos - smul sd (d * 0.4 * 0.3),
       handle_right := start_pos + smul sd (d * 0.4) + smul s 0.5\<rparr>"
  define p1 where "p1 = (bezier_points spl ! 1)\<lparr>
       handle_left := end_pos + smul ed (d * 0.4) + smul s 0.5,
       handle_right := end_pos - smul ed (d * 0.4 * 0.3)\<rparr>"
  define ob1 where "ob1 = ob\<lparr>data := Curve (cu\<lparr>splines := (splines cu)
       [0 := spl\<lparr>bezier_points := (bezier_points spl)[0 := p0, 1 := p1]\<rparr>]\<rparr>)\<rparr>"
  define w1 where "w1 = set_object cid ob1 w"
  have step: "update_cable_handles cid w = update_end_cap_orientations cid w1"
    using ob cu spl len sp ep sn en sg sgf
    unfolding w1_def ob1_def p0_def p1_def s_def ed_def sd_def dir_def d_def vs_def ve_def
    by (simp add: update_cable_handles_def getitem_def to_Vector_def get_default_def Let_def)
  have "\<exists>w'. update_end_cap_orientations cid w1 = Inr w'"
    by (rule update_end_cap_orientations_curve[where ob = ob1])
       (simp_all add: set_object_def w1_def ob1_def)
  then obtain w' where w': "update_end_cap_orientations cid w1 = Inr w'" by blast
  have pt: "first_spline_point w' cid k = first_spline_point w1 cid k" for k
    by (rule update_end_cap_orientations_point[OF w'])
  have q0: "first_spline_point w1 cid 0 = Some p0"
    using spl len by (auto simp: first_spline_point_def set_object_def w1_def ob1_def)
  have q1: "first_spline_point w1 cid 1 = Some p1"
    using spl len by (auto simp: first_spline_point_def set_object_def w1_def ob1_def)
  have smul2: "smul (smul v a) b = smul v (a * b)" for v a b
    by (simp add: smul_def mult.assoc)
  have hs: "s = smul (Vector 0 0 (- 1)) (d * sag)"
    by (simp add: s_def smul2)
  have h0: "handle_right p0 = start_pos + smul sd (0.4 * d) + smul (smul (Vector 0 0 (- 1)) (d * sag)) 0.5"
    "handle_left p0 = start_pos - smul sd (0.3 * (0.4 * d))"
    by (simp_all add: p0_def hs mult.commute)
  have h1: "handle_left p1 = end_pos + smul ed (0.4 * d) + smul (smul (Vector 0 0 (- 1)) (d * sag)) 0.5"
    "handle_right p1 = end_pos - smul ed (0.3 * (0.4 * d))"
    by (simp_all add: p1_def hs mult.commute)
  have vsd: "vs = (if vlength (normalized sn) < 0.001 then Vector 0 0 1 else normalized sn)"
    and ved: "ve = (if vlength (normalized en) < 0.001 then Vector 0 0 1 else normalized en)"
    by (simp_all add: vs_def ve_def valid_normal_def Let_def)
  have unit: "vlength vs = 1" "vlength ve = 1"
    by (simp_all add: vs_def ve_def valid_normal_length)
  have same: "vlength sn = 1 \<longrightarrow> vs = sn" "vlength en = 1 \<longrightarrow> ve = en"
    by (simp_all add: vs_def ve_def valid_normal_unit)
  show ?thesis
    apply (rule exI[of _ w'], rule exI[of _ p0], rule exI[of _ p1])
    unfolding Let_def vsd[symmetric] ved[symmetric]
    using h0 h1 q0 q1 unit same by (simp add: step w' pt sd_def ed_def dir_def d_def)
qed

lemma sqrt_25: "sqrt 25 = 5"
  by (rule real_sqrt_unique) simp_all

lemma vlength_3_4_0: "vlength (Vector 3 4 0) = 5"
  by (simp add: vlength_def dot_def sqrt_25)

lemma demo_normals:
  "normalized (Vector 0 0 1) = Vector 0 0 1"
  "normalized (Vector (3 / 5) (4 / 5) 0) = Vector (3 / 5) (4 / 5) 0"
  "normalized (Vector 0 0 2) = Vector 0 0 1"
  "normalized (Vector 0 0 0) = Vector 0 0 0"
  "normalized (Vector 3 4 0) = Vector (3 / 5) (4 / 5) 0"
  "vlength (Vector 0 0 1) = 1" "vlength (Vector (3 / 5) (4 / 5) 0) = 1"
  "vlength (Vector 0 0 0) = 0" "vlength (Vector 0 0 2) = 2"
proof -
  have "(3 / 5) * (3 / 5) + (4 / 5) * (4 / 5) = (1::real)" by simp
  then have a: "vlength (Vector (3 / 5) (4 / 5) 0) = 1"
    by (simp add: vlength_def dot_def)
  have b: "vlength (Vector 0 0 2) = 2"
    by (simp add: vlength_def dot_def)
  show "normalized (Vector 0 0 1) = Vector 0 0 1"
    by (simp add: vlength_normalized_unit vlength_z_unit)
  show "normalized (Vector (3 / 5) (4 / 5) 0) = Vector (3 / 5) (4 / 5) 0"
    by (simp only: vlength_normalized_unit[OF a])
  show "normalized (Vector 0 0 2) = Vector 0 0 1"
    by (simp add: normalized_def b smul_def)
  show "normalized (Vector 0 0 0) = Vector 0 0 0"
    using normalized_zero by (simp add: zero_vec_def)
  show "normalized (Vector 3 4 0) = Vector (3 / 5) (4 / 5) 0"
    by (simp add: normalized_def vlength_3_4_0 smul_def)
  show "vlength (Vector 0 0 1) = 1" by (rule vlength_z_unit)
  show "vlength (Vector (3 / 5) (4 / 5) 0) = 1" by (rule a)
  show "vlength (Vector 0 0 0) = 0" by (simp add: vlength_def dot_def)
  show "vlength (Vector 0 0 2) = 2" by (rule b)
qed

theorem update_cable_handles_from_metadata_witness:
  "(\<exists>w' p0 p1.
     update_cable_handles 0 demo_world = Inr w' \<and>
     first_spline_point w' 0 0 = Some p0 \<and> first_spline_point w' 0 1 = Some p1 \<and>
     handle_right p0 = Vector 0 0 (3 / 4) \<and> handle_left p0 = Vector 0 0 (- 3 / 5) \<and>
     handle_left p1 = Vector (9 / 5) (12 / 5) (- 5 / 4) \<and>
     handle_right p1 = Vector (84 / 25) (112 / 25) 0) \<and>
   (\<exists>w' p0 p1.
     update_cable_handles 0 raw_world = Inr w' \<and>
     first_spline_point w' 0 0 = Some p0 \<and> first_spline_point w' 0 1 = Some p1 \<and>
     handle_right p0 = Vector 0 0 (3 / 4) \<and> handle_left p0 = Vector 0 0 (- 3 / 5) \<and>
     handle_left p1 = Vector 3 4 (3 / 4) \<and>
     handle_right p1 = Vector 3 4 (- 3 / 5))"
proof -
  have a: "\<exists>w' p0 p1.
     update_cable_handles 0 demo_world = Inr w' \<and>
     first_spline_point w' 0 0 = Some p0 \<and> first_spline_point w' 0 1 = Some p1 \<and>
     handle_right p0 = Vector 0 0 (3 / 4) \<and> handle_left p0 = Vector 0 0 (- 3 / 5) \<and>
     handle_left p1 = Vector (9 / 5) (12 / 5) (- 5 / 4) \<and>
     handle_right p1 = Vector (84 / 25) (112 / 25) 0"
    using update_cable_handles_from_metadata[of demo_world 0 demo_cable _ _ "[]" "Vector 0 0 0" "Vector 3 4 0" "Vector 0 0 1"
           "Vector (6 / 10) (8 / 10) 0" "IDFloat 0.5" "0.5"]
    by (simp add: demo_world_def demo_cable_def to_float_def vlength_3_4_0 demo_normals
        dot_def smul_def plus_vec_def minus_vec_def uminus_vec_def zero_vec_def
        Let_def)
  have b: "\<exists>w' p0 p1.
     update_cable_handles 0 raw_world = Inr w' \<and>
     first_spline_point w' 0 0 = Some p0 \<and> first_spline_point w' 0 1 = Some p1 \<and>
     handle_right p0 = Vector 0 0 (3 / 4) \<and> handle_left p0 = Vector 0 0 (- 3 / 5) \<and>
     handle_left p1 = Vector 3 4 (3 / 4) \<and>
     handle_right p1 = Vector 3 4 (- 3 / 5)"
    using update_cable_handles_from_metadata[of raw_world 0 raw_cable _ _ "[]" "Vector 0 0 0" "Vector 3 4 0" "Vector 0 0 2"
           "Vector 0 0 0" "IDFloat 0.5" "0.5"]
    by (simp add: raw_world_def raw_cable_def demo_cable_def to_float_def vlength_3_4_0
        demo_normals dot_def smul_def plus_vec_def minus_vec_def uminus_vec_def
        zero_vec_def Let_def)
  from a b show ?thesis by blast
qed

subsection \<open>Frame and success lemmas\<close>

lemma objects_set_object [simp]: "objects (set_object i ob w) = (objects w)(i \<mapsto> ob)"
  by (simp add: set_object_def)

lemma objects_map_object:
  "objects (map_object i f w) j = (if j = i then map_option f (objects w j) else objects w j)"
  by (simp add: map_object_def)

lemma orient_child_frame [simp]:
  "props (orient_child w0 bps c) = props c" "name (orient_child w0 bps c) = name c"
  "parent (orient_child w0 bps c) = parent c"
  "scale (orient_child w0 bps c) = scale c"
  "matrix_parent_inverse (orient_child w0 bps c) = matrix_parent_inverse c"
  "modifiers (orient_child w0 bps c) = modifiers c" "mode (orient_child w0 bps c) = mode c"
  by (simp_all add: orient_child_def set_matrix_world_def Let_def)

lemma type_orient_child [simp]: "type (orient_child w0 bps c) = type c"
  by (simp add: type_def)

lemma update_end_cap_orientations_frame:
  assumes "update_end_cap_orientations cid w = Inr w'" and "objects w i = Some ob"
  shows "\<exists>ob'. objects w' i = Some ob' \<and> name ob' = name ob \<and> props ob' = props ob \<and>
           parent ob' = parent ob \<and> data ob' = data ob \<and> type ob' = type ob"
  using assms
  by (auto simp: update_end_cap_orientations_def objects_map_children Let_def
      split: option.splits obj_data.splits if_splits)

lemma update_cable_handles_frame:
  assumes "update_cable_handles cid w = Inr w'" and "objects w i = Some ob"
  shows "\<exists>ob'. objects w' i = Some ob' \<and> name ob' = name ob \<and> props ob' = props ob \<and>
           parent ob' = parent ob \<and> type ob' = type ob"
proof -
  from assms(1) have "w' = w \<or> (\<exists>ob1 cu w1. objects w cid = Some ob1 \<and> type ob1 = CURVE \<and>
       w1 = set_object cid (ob1\<lparr>data := Curve cu\<rparr>) w \<and>
       update_end_cap_orientations cid w1 = Inr w')"
    by (auto simp: update_cable_handles_def Let_def bind_def type_def
        split: option.splits obj_data.splits if_splits sum.splits)
  then show ?thesis
  proof
    assume "w' = w" with assms(2) show ?thesis by simp
  next
    assume "\<exists>ob1 cu w1. objects w cid = Some ob1 \<and> type ob1 = CURVE \<and>
       w1 = set_object cid (ob1\<lparr>data := Curve cu\<rparr>) w \<and>
       update_end_cap_orientations cid w1 = Inr w'"
    then obtain ob1 cu w1 where h: "objects w cid = Some ob1" "type ob1 = CURVE"
       "w1 = set_object cid (ob1\<lparr>data := Curve cu\<rparr>) w"
       "update_end_cap_orientations cid w1 = Inr w'" by blast
    have "\<exists>ob2. objects w1 i = Some ob2 \<and> name ob2 = name ob \<and> props ob2 = props ob \<and>
           parent ob2 = parent ob \<and> type ob2 = type ob"
      using h(1,2) assms(2) by (auto simp: h(3) type_def)
    then obtain ob2 where ob2: "objects w1 i = Some ob2" "name ob2 = name ob"
      "props ob2 = props ob" "parent ob2 = parent ob" "type ob2 = type ob" by blast
    from update_end_cap_orientations_frame[OF h(4) ob2(1)] ob2 show ?thesis by auto
  qed
qed

lemma update_end_cap_orientations_ok:
  "objects w cid = Some ob \<Longrightarrow> type ob = CURVE \<Longrightarrow>
   \<exists>w'. update_end_cap_orientations cid w = Inr w'"
  by (auto simp: update_end_cap_orientations_def type_def Let_def split: obj_data.splits)

lemma update_cable_handles_ok:
  assumes "objects w cid = Some ob" and "type ob = CURVE"
    and "props ob ''start_pos'' = Some (IDArray sp)"
    and "props ob ''end_pos'' = Some (IDArray ep)"
    and "props ob ''start_normal'' = Some (IDArray sn)"
    and "props ob ''end_normal'' = Some (IDArray en)"
    and "to_float (get_default (props ob) ''cable_sag'' (IDFloat 0)) = Inr sag"
  shows "\<exists>w'. update_cable_handles cid w = Inr w'"
proof -
  from assms(2) obtain cu where cu: "data ob = Curve cu"
    by (auto simp: type_def split: obj_data.splits)
  have ok: "\<exists>w'. update_end_cap_orientations cid (set_object cid (ob\<lparr>data := Curve cu'\<rparr>) w) = Inr w'" for cu'
    by (rule update_end_cap_orientations_ok[where ob = "ob\<lparr>data := Curve cu'\<rparr>"])
       (simp_all add: type_def)
  show ?thesis
    using assms(1,3-7) cu ok
    by (simp add: update_cable_handles_def getitem_def to_Vector_def Let_def)
qed


subsection \<open>The metadata of a new cable\<close>

lemma create_curve_result:
  "\<exists>w' ob. create_curve_between_points start_pos sn end_pos en nm w = Inr (next_id w, w') \<and>
     objects w' (next_id w) = Some ob \<and> type ob = CURVE \<and> parent ob = None \<and>
     props ob = (\<lambda>k. None)(''is_cable'' \<mapsto> IDInt 1,
               ''cable_thickness'' \<mapsto> IDFloat 0.05,
               ''cable_resolution'' \<mapsto> IDInt 12,
               ''cable_sag'' \<mapsto> IDFloat 0.0,
               ''start_pos'' \<mapsto> IDArray start_pos,
               ''end_pos'' \<mapsto> IDArray end_pos,
               ''start_normal'' \<mapsto> IDArray (valid_normal sn),
               ''end_normal'' \<mapsto> IDArray (valid_normal en),
               ''has_end_caps'' \<mapsto> IDInt 0,
               ''end_cap_scale'' \<mapsto> IDFloat 1.0)"
  by (simp add: create_curve_between_points_def link_new_def Let_def new_object_def
      update_cable_handles_def getitem_def to_Vector_def get_default_def to_float_def
      update_end_cap_orientations_def map_children_def setup_cable_drivers_def type_def)

text \<open>
  Claim C8. The curve object that \<^verbatim>\<open>create_curve_between_points\<close> returns is a curve
  tagged \<^verbatim>\<open>is_cable\<close> whose custom properties are exactly the ten advertised keys:
  the end points as given, the normals normalized and replaced by \<open>(0,0,1)\<close> when
  degenerate, and thickness 0.05, resolution 12, sag 0.0, cap scale 1.0 and
  \<^verbatim>\<open>has_end_caps\<close> 0.
\<close>

theorem create_curve_between_points_metadata:
  "\<exists>cid w' ob.
     create_curve_between_points start_pos start_normal end_pos end_normal nm w = Inr (cid, w') \<and>
     objects w' cid = Some ob \<and> type ob = CURVE \<and>
     props ob = (\<lambda>k. None)(''is_cable'' \<mapsto> IDInt 1,
               ''cable_thickness'' \<mapsto> IDFloat 0.05,
               ''cable_resolution'' \<mapsto> IDInt 12,
               ''cable_sag'' \<mapsto> IDFloat 0.0,
               ''start_pos'' \<mapsto> IDArray start_pos,
               ''end_pos'' \<mapsto> IDArray end_pos,
               ''start_normal'' \<mapsto> IDArray
                  (if vlength (normalized start_normal) < 0.001 then Vector 0 0 1
                   else normalized start_normal),
               ''end_normal'' \<mapsto> IDArray
                  (if vlength (normalized end_normal) < 0.001 then Vector 0 0 1
                   else normalized end_normal),
               ''has_end_caps'' \<mapsto> IDInt 0,
               ''end_cap_scale'' \<mapsto> IDFloat 1.0)"
  using create_curve_result[of start_pos start_normal end_pos end_normal nm w]
  unfolding valid_normal_def Let_def by blast

theorem create_curve_between_points_metadata_witness:
  "\<exists>cid w' ob.
     create_curve_between_points (Vector 0 0 0) (Vector 0 0 2) (Vector 3 4 0) (Vector 0 0 0)
       ''Cable_2'' demo_world = Inr (cid, w') \<and>
     objects w' cid = Some ob \<and> type ob = CURVE \<and>
     props ob ''is_cable'' = Some (IDInt 1) \<and>
     props ob ''start_normal'' = Some (IDArray (Vector 0 0 1)) \<and>
     props ob ''end_normal'' = Some (IDArray (Vector 0 0 1)) \<and>
     props ob ''end_pos'' = Some (IDArray (Vector 3 4 0)) \<and>
     props ob ''not_a_cable_key'' = None"
proof -
  have n: "normalized (Vector 0 0 2) = Vector 0 0 1" "normalized (Vector 0 0 0) = Vector 0 0 0"
    "vlength (Vector 0 0 1) = 1" "vlength (Vector 0 0 0) = 0"
    by (simp_all add: normalized_def vlength_def dot_def smul_def zero_vec_def)
  from create_curve_between_points_metadata[of "Vector 0 0 0" "Vector 0 0 2" "Vector 3 4 0"
      "Vector 0 0 0" "''Cable_2''" demo_world]
  obtain cid w' ob where h:
    "create_curve_between_points (Vector 0 0 0) (Vector 0 0 2) (Vector 3 4 0) (Vector 0 0 0)
       ''Cable_2'' demo_world = Inr (cid, w')"
    "objects w' cid = Some ob" "type ob = CURVE"
    "props ob = (\<lambda>k. None)(''is_cable'' \<mapsto> IDInt 1,
               ''cable_thickness'' \<mapsto> IDFloat 0.05,
               ''cable_resolution'' \<mapsto> IDInt 12,
               ''cable_sag'' \<mapsto> IDFloat 0.0,
               ''start_pos'' \<mapsto> IDArray (Vector 0 0 0),
               ''end_pos'' \<mapsto> IDArray (Vector 3 4 0),
               ''start_normal'' \<mapsto> IDArray (Vector 0 0 1),
               ''end_normal'' \<mapsto> IDArray (Vector 0 0 1),
               ''has_end_caps'' \<mapsto> IDInt 0,
               ''end_cap_scale'' \<mapsto> IDFloat 1.0)"
    unfolding n by auto
  show ?thesis
    by (rule exI[of _ cid], rule exI[of _ w'], rule exI[of _ ob]) (simp add: h)
qed

subsection \<open>End cap orientation\<close>













subsection \<open>Toggling the end caps\<close>

lemma create_end_cap_exists:
  "create_end_cap pos n t m scl nm w = (r, w') \<Longrightarrow> objects w j \<noteq> None \<Longrightarrow> objects w' j \<noteq> None"
  by (auto simp: create_end_cap_def link_new_def Let_def split: option.splits if_splits)

lemma toggle_remove:
  assumes "active_object context = Some c" and "objects w c = Some cable"
    and "truthy (Some (get_default (props cable) ''has_end_caps'' (IDInt 0)))"
    and "toggle_end_caps_execute context w = Inr (FINISHED, r, w')"
  shows "\<exists>cable'. objects w' c = Some cable' \<and>
           props cable' = (props cable)(''has_end_caps'' \<mapsto> IDInt 0) \<and>
           (\<forall>i. \<not> is_cap_of w' c i)"
proof -
  let ?w1 = "remove_end_caps c w"
  from assms have ok: "type cable = CURVE" "props cable ''is_cable'' \<noteq> None"
    by (auto simp: toggle_end_caps_execute_def Let_def split: if_splits)
  from assms ok have ex: "objects ?w1 c \<noteq> None" and w': "w' = set_prop c ''has_end_caps'' (IDInt 0) ?w1"
    by (auto simp: toggle_end_caps_execute_def Let_def split: if_splits)
  from ex assms(2) have notcap: "\<not> is_cap_of w c c"
    by (auto simp: remove_end_caps_def split: if_splits)
  have c1: "objects ?w1 c = Some (case parent cable of None \<Rightarrow> cable
              | Some p \<Rightarrow> if is_cap_of w c p then cable\<lparr>parent := None\<rparr> else cable)"
    using notcap assms(2) by (simp add: remove_end_caps_def)
  have p1: "\<exists>cable'. objects w' c = Some cable' \<and>
           props cable' = (props cable)(''has_end_caps'' \<mapsto> IDInt 0)"
    unfolding w' by (simp add: set_prop_def objects_map_object c1 split: option.splits)
  have p2: "\<not> is_cap_of w' c i" for i
  proof
    assume a: "is_cap_of w' c i"
    then obtain ob' where ob': "objects w' i = Some ob'" "parent ob' = Some c"
        "truthy (props ob' ''is_end_cap'')"
      by (auto simp: is_cap_of_def split: option.splits)
    from ob'(1) obtain ob1 where ob1: "objects ?w1 i = Some ob1" "parent ob1 = parent ob'"
        "props ob1 ''is_end_cap'' = props ob' ''is_end_cap''"
      unfolding w' by (auto simp: set_prop_def objects_map_object split: if_splits)
    from ob1(1) obtain ob where ob: "objects w i = Some ob" "\<not> is_cap_of w c i"
        "props ob1 = props ob" "parent ob1 = Some c \<longrightarrow> parent ob = Some c"
      by (auto simp: remove_end_caps_def split: if_splits option.splits)
    with ob' ob1 show False by (simp add: is_cap_of_def)
  qed
  from p1 p2 show ?thesis by blast
qed

lemma add_caps_to_cable_result:
  assumes "objects w c = Some cable"
    and "add_caps_to_cable cprops c cable0 sp sn ep en scl w = (FINISHED, r, w')"
  shows "\<exists>cable'. objects w' c = Some cable' \<and> props cable' ''has_end_caps'' = Some (IDInt 1)"
proof -
  obtain start_cap w1 where c1: "create_end_cap sp sn (end_cap_type cprops)
                (end_cap_mesh cprops) scl (''Cap_Start_'' @ name cable0) w = (start_cap, w1)"
    by (cases "create_end_cap sp sn (end_cap_type cprops)
                (end_cap_mesh cprops) scl (''Cap_Start_'' @ name cable0) w") auto
  define w2 where "w2 = (case start_cap of None \<Rightarrow> w1 | Some s \<Rightarrow> set_parent s c w1)"
  obtain end_cap w3 where c2: "create_end_cap ep en (end_cap_type cprops)
                        (end_cap_mesh cprops) scl (''Cap_End_'' @ name cable0) w2 = (end_cap, w3)"
    by (cases "create_end_cap ep en (end_cap_type cprops)
                        (end_cap_mesh cprops) scl (''Cap_End_'' @ name cable0) w2") auto
  define w4 where "w4 = (case end_cap of None \<Rightarrow> w3 | Some e \<Rightarrow> set_parent e c w3)"
  define w5 where "w5 = set_prop c ''has_end_caps'' (IDInt 1) w4"
  from assms(2) have w6: "update_end_cap_orientations c w5 = Inr w'"
    unfolding add_caps_to_cable_def c1 prod.case Let_def w2_def[symmetric] c2
      w4_def[symmetric] w5_def[symmetric]
    by (auto split: sum.splits)
  have "objects w1 c \<noteq> None" using create_end_cap_exists[OF c1] assms(1) by simp
  then have "objects w2 c \<noteq> None"
    by (auto simp: w2_def set_parent_def objects_map_object split: option.splits)
  then have "objects w3 c \<noteq> None" using create_end_cap_exists[OF c2] by simp
  then have "objects w4 c \<noteq> None"
    by (auto simp: w4_def set_parent_def objects_map_object split: option.splits)
  then obtain ob4 where "objects w4 c = Some ob4" by auto
  then have "objects w5 c = Some (ob4\<lparr>props := (props ob4)(''has_end_caps'' \<mapsto> IDInt 1)\<rparr>)"
    by (simp add: w5_def set_prop_def objects_map_object)
  from update_end_cap_orientations_frame[OF w6 this] show ?thesis by auto
qed

lemma toggle_add:
  assumes "active_object context = Some c" and "objects w c = Some cable"
    and "\<not> truthy (Some (get_default (props cable) ''has_end_caps'' (IDInt 0)))"
    and "toggle_end_caps_execute context w = Inr (FINISHED, r, w')"
  shows "\<exists>cable'. objects w' c = Some cable' \<and>
           props cable' ''has_end_caps'' = Some (IDInt 1)"
proof -
  from assms obtain sp sn ep en scl where
    "add_caps_to_cable (cable_gen_props context) c cable sp sn ep en scl w = (FINISHED, r, w')"
    by (auto simp: toggle_end_caps_execute_def Let_def bind_def
        split: if_splits sum.splits)
  from add_caps_to_cable_result[OF assms(2) this] show ?thesis .
qed


text \<open>
  Claim C7, as amended. A successful run of Toggle End Caps on the active cable with a
  nonzero \<^verbatim>\<open>has_end_caps\<close> leaves no child with a true \<^verbatim>\<open>is_end_cap\<close> and sets
  \<^verbatim>\<open>has_end_caps\<close> to 0; a successful run with a zero or missing \<^verbatim>\<open>has_end_caps\<close> needs
  \<^verbatim>\<open>start_pos\<close> and \<^verbatim>\<open>end_pos\<close> and sets \<^verbatim>\<open>has_end_caps\<close> to 1. Two successive
  successful runs restore whether \<^verbatim>\<open>has_end_caps\<close> is nonzero, and restore its value
  when that was the integer 0 or 1.
\<close>

theorem toggle_end_caps_switch:
  assumes act: "active_object context = Some c" and ob: "objects w c = Some cable"
  shows "(truthy (props cable ''has_end_caps'') \<and>
            toggle_end_caps_execute context w = Inr (FINISHED, r, w') \<longrightarrow>
          (\<exists>cable'. objects w' c = Some cable' \<and>
             props cable' ''has_end_caps'' = Some (IDInt 0)) \<and> (\<forall>i. \<not> is_cap_of w' c i))
       \<and> (\<not> truthy (props cable ''has_end_caps'') \<and>
            toggle_end_caps_execute context w = Inr (FINISHED, r, w') \<longrightarrow>
          props cable ''start_pos'' \<noteq> None \<and> props cable ''end_pos'' \<noteq> None \<and>
          (\<exists>cable'. objects w' c = Some cable' \<and>
             props cable' ''has_end_caps'' = Some (IDInt 1)))
       \<and> (toggle_end_caps_execute context w = Inr (FINISHED, r, w') \<and>
          toggle_end_caps_execute context w' = Inr (FINISHED, r', w'') \<longrightarrow>
          (\<exists>cable''. objects w'' c = Some cable'' \<and>
             (truthy (props cable'' ''has_end_caps'') \<longleftrightarrow> truthy (props cable ''has_end_caps'')) \<and>
             (props cable ''has_end_caps'' = Some (IDInt 0) \<or>
              props cable ''has_end_caps'' = Some (IDInt 1) \<longrightarrow>
              props cable'' ''has_end_caps'' = props cable ''has_end_caps'')))"
proof -
  have tr: "truthy (Some (get_default ps ''has_end_caps'' (IDInt 0))) = truthy (ps ''has_end_caps'')" for ps
    by (simp add: get_default_def truthy_def split: option.splits)
  have A: "(\<exists>cable'. objects v' c = Some cable' \<and>
           props cable' ''has_end_caps'' = Some (IDInt 0)) \<and> (\<forall>i. \<not> is_cap_of v' c i)"
    if "objects v c = Some cb" "truthy (props cb ''has_end_caps'')"
       "toggle_end_caps_execute context v = Inr (FINISHED, q, v')" for v v' cb q
    using toggle_remove[OF act that(1) _ that(3)] that(2) by (auto simp: tr)
  have B: "\<exists>cable'. objects v' c = Some cable' \<and> props cable' ''has_end_caps'' = Some (IDInt 1)"
    if "objects v c = Some cb" "\<not> truthy (props cb ''has_end_caps'')"
       "toggle_end_caps_execute context v = Inr (FINISHED, q, v')" for v v' cb q
    using toggle_add[OF act that(1) _ that(3)] that(2) by (simp add: tr)
  have P: "props cable ''start_pos'' \<noteq> None \<and> props cable ''end_pos'' \<noteq> None"
    if "\<not> truthy (props cable ''has_end_caps'')"
       "toggle_end_caps_execute context w = Inr (FINISHED, r, w')"
    using that act ob
    by (auto simp: toggle_end_caps_execute_def Let_def tr split: if_splits)
  have C: "\<exists>cable''. objects w'' c = Some cable'' \<and>
             (truthy (props cable'' ''has_end_caps'') \<longleftrightarrow> truthy (props cable ''has_end_caps'')) \<and>
             (props cable ''has_end_caps'' = Some (IDInt 0) \<or>
              props cable ''has_end_caps'' = Some (IDInt 1) \<longrightarrow>
              props cable'' ''has_end_caps'' = props cable ''has_end_caps'')"
    if t1: "toggle_end_caps_execute context w = Inr (FINISHED, r, w')"
      and t2: "toggle_end_caps_execute context w' = Inr (FINISHED, r', w'')"
  proof (cases "truthy (props cable ''has_end_caps'')")
    case True
    from A[OF ob True t1] obtain c1 where c1: "objects w' c = Some c1"
      "props c1 ''has_end_caps'' = Some (IDInt 0)" by auto
    then have "\<not> truthy (props c1 ''has_end_caps'')" by (simp add: truthy_def)
    from B[OF c1(1) this t2] obtain c2 where "objects w'' c = Some c2"
      "props c2 ''has_end_caps'' = Some (IDInt 1)" by auto
    with True show ?thesis by (auto simp: truthy_def)
  next
    case False
    from B[OF ob False t1] obtain c1 where c1: "objects w' c = Some c1"
      "props c1 ''has_end_caps'' = Some (IDInt 1)" by auto
    then have "truthy (props c1 ''has_end_caps'')" by (simp add: truthy_def)
    from A[OF c1(1) this t2] obtain c2 where "objects w'' c = Some c2"
      "props c2 ''has_end_caps'' = Some (IDInt 0)" by auto
    with False show ?thesis by (auto simp: truthy_def)
  qed
  show ?thesis using A[OF ob] B[OF ob] P C by blast
qed


lemma toggle_capped_first:
  "hc \<noteq> 0 \<Longrightarrow> toggle_end_caps_execute demo_ctx (capped_world (IDInt hc) loc) =
     Inr (FINISHED, (INFO, ''Removed end caps''),
          \<lparr>objects = (\<lambda>i. None)(0 \<mapsto> demo_cable\<lparr>props := (props demo_cable)(''has_end_caps'' \<mapsto> IDInt 0)\<rparr>),
           next_id = 3, scene_objects = [0], cables_collection = None\<rparr>)"
  by (auto simp: toggle_end_caps_execute_def capped_world_def demo_cable_def demo_cap_def
      demo_ctx_def demo_props_def type_def get_default_def truthy_def
      Let_def remove_end_caps_def is_cap_of_def set_prop_def map_object_def fun_eq_iff)

lemma toggle_capped_second:
  "\<exists>r w. toggle_end_caps_execute demo_ctx
     \<lparr>objects = (\<lambda>i. None)(0 \<mapsto> demo_cable\<lparr>props := (props demo_cable)(''has_end_caps'' \<mapsto> IDInt 0)\<rparr>),
           next_id = 3, scene_objects = [0], cables_collection = None\<rparr> = Inr (FINISHED, r, w)"
  by (simp add: toggle_end_caps_execute_def demo_cable_def demo_ctx_def demo_props_def
      type_def get_default_def truthy_def
      Let_def getitem_def to_Vector_def to_float_def add_caps_to_cable_def create_end_cap_def
      link_new_def new_object_def set_parent_def set_prop_def map_object_def
      update_end_cap_orientations_def)

theorem toggle_end_caps_switch_witness:
  "\<exists>r1 w1 r2 w2 c1 c2.
     toggle_end_caps_execute demo_ctx (capped_world (IDInt 1) (Vector 0 0 0)) = Inr (FINISHED, r1, w1) \<and>
     objects w1 0 = Some c1 \<and> props c1 ''has_end_caps'' = Some (IDInt 0) \<and>
     (\<forall>i. \<not> is_cap_of w1 0 i) \<and>
     toggle_end_caps_execute demo_ctx w1 = Inr (FINISHED, r2, w2) \<and>
     objects w2 0 = Some c2 \<and> props c2 ''has_end_caps'' = Some (IDInt 1)"
proof -
  let ?w = "capped_world (IDInt 1) (Vector 0 0 0)"
  let ?cable = "demo_cable\<lparr>props := (props demo_cable)(''has_end_caps'' \<mapsto> IDInt 1)\<rparr>"
  obtain r1 w1 where t1: "toggle_end_caps_execute demo_ctx ?w = Inr (FINISHED, r1, w1)"
    using toggle_capped_first[of 1 "Vector 0 0 0"] by simp
  then have w1: "w1 = \<lparr>objects = (\<lambda>i. None)(0 \<mapsto> demo_cable\<lparr>props := (props demo_cable)(''has_end_caps'' \<mapsto> IDInt 0)\<rparr>),
           next_id = 3, scene_objects = [0], cables_collection = None\<rparr>"
    using toggle_capped_first[of 1 "Vector 0 0 0"] by simp
  obtain r2 w2 where t2: "toggle_end_caps_execute demo_ctx w1 = Inr (FINISHED, r2, w2)"
    using toggle_capped_second unfolding w1 by blast
  have act: "active_object demo_ctx = Some 0" by (simp add: demo_ctx_def)
  have ob: "objects ?w 0 = Some ?cable" by (simp add: capped_world_def)
  have tr: "truthy (props ?cable ''has_end_caps'')" by (simp add: truthy_def)
  from toggle_end_caps_switch[OF act ob, of r1 w1 r2 w2] t1 t2 tr
  show ?thesis by (auto simp: truthy_def)
qed

text \<open>The claim as stated fails for a cable whose \<^verbatim>\<open>has_end_caps\<close> is 2: two successful
  toggles leave it at 1.\<close>

theorem toggle_end_caps_counterexample:
  "\<exists>r1 w1 r2 w2 cable cable2.
     active_object demo_ctx = Some 0 \<and>
     objects (capped_world (IDInt 2) (Vector 0 0 0)) 0 = Some cable \<and>
     toggle_end_caps_execute demo_ctx (capped_world (IDInt 2) (Vector 0 0 0)) = Inr (FINISHED, r1, w1) \<and>
     toggle_end_caps_execute demo_ctx w1 = Inr (FINISHED, r2, w2) \<and>
     objects w2 0 = Some cable2 \<and>
     props cable ''has_end_caps'' = Some (IDInt 2) \<and>
     props cable2 ''has_end_caps'' = Some (IDInt 1) \<and>
     props cable2 ''has_end_caps'' \<noteq> props cable ''has_end_caps''"
proof -
  let ?w = "capped_world (IDInt 2) (Vector 0 0 0)"
  let ?w1 = "\<lparr>objects = (\<lambda>i. None)(0 \<mapsto> demo_cable\<lparr>props := (props demo_cable)(''has_end_caps'' \<mapsto> IDInt 0)\<rparr>),
           next_id = 3, scene_objects = [0], cables_collection = None\<rparr>"
  have t1: "toggle_end_caps_execute demo_ctx ?w = Inr (FINISHED, (INFO, ''Removed end caps''), ?w1)"
    using toggle_capped_first[of 2 "Vector 0 0 0"] by simp
  obtain r2 w2 where t2: "toggle_end_caps_execute demo_ctx ?w1 = Inr (FINISHED, r2, w2)"
    using toggle_capped_second by blast
  have act: "active_object demo_ctx = Some 0" by (simp add: demo_ctx_def)
  have "objects ?w1 0 = Some (demo_cable\<lparr>props := (props demo_cable)(''has_end_caps'' \<mapsto> IDInt 0)\<rparr>)"
    by simp
  from toggle_add[OF act this _ t2] obtain cable2 where
    c2: "objects w2 0 = Some cable2" "props cable2 ''has_end_caps'' = Some (IDInt 1)"
    by (auto simp: get_default_def truthy_def)
  show ?thesis
    apply (rule exI[of _ "(INFO, ''Removed end caps'')"], rule exI[of _ ?w1])
    apply (rule exI[of _ r2], rule exI[of _ w2])
    apply (rule exI[of _ "demo_cable\<lparr>props := (props demo_cable)(''has_end_caps'' \<mapsto> IDInt 2)\<rparr>"])
    apply (rule exI[of _ cable2])
    using t1 t2 c2 act by (simp add: capped_world_def)
qed

subsection \<open>Reversing a cable\<close>

lemma replace_prefix:
  "old \<noteq> [] \<Longrightarrow> startswith s old \<Longrightarrow>
   replace s old new = new @ replace (drop (length old) s) old new"
  by (cases s) (auto simp: startswith_def)

lemma startswith_append [simp]: "startswith (p @ s) p"
  by (simp add: startswith_def)

lemma startswith_Cap_End_temp:
  "startswith (''Cap_End_temp'' @ s) ''Cap_End_temp''"
  by (rule startswith_append)

lemma startswith_excl:
  assumes "startswith s ''Cap_End''" shows "\<not> startswith s ''Cap_Start''"
proof
  assume b: "startswith s ''Cap_Start''"
  from assms have "take (length ''Cap_End'') s ! 4 = ''Cap_End'' ! 4"
    unfolding startswith_def by (rule arg_cong)
  then have e: "s ! 4 = CHR ''E''" by simp
  from b have "take (length ''Cap_Start'') s ! 4 = ''Cap_Start'' ! 4"
    unfolding startswith_def by (rule arg_cong)
  then have "s ! 4 = CHR ''S''" by simp
  with e show False by simp
qed

lemma reverse_cap_name_start:
  assumes "startswith n ''Cap_Start''"
  shows "startswith (reverse_cap_name n) ''Cap_End''"
    and "\<not> startswith (reverse_cap_name n) ''Cap_Start''"
proof -
  have 1: "replace n ''Cap_Start'' ''Cap_End_temp''
        = ''Cap_End_temp'' @ replace (drop (length ''Cap_Start'') n) ''Cap_Start'' ''Cap_End_temp''"
    by (rule replace_prefix[OF _ assms]) simp
  have 2: "replace (replace n ''Cap_Start'' ''Cap_End_temp'') ''Cap_End_temp'' ''Cap_End''
        = ''Cap_End'' @ replace (drop (length ''Cap_End_temp'')
             (replace n ''Cap_Start'' ''Cap_End_temp'')) ''Cap_End_temp'' ''Cap_End''"
    by (rule replace_prefix) (simp, subst 1, rule startswith_append)
  show e: "startswith (reverse_cap_name n) ''Cap_End''"
    unfolding reverse_cap_name_def using assms by (simp only: if_True 2 startswith_append)
  from startswith_excl[OF e] show "\<not> startswith (reverse_cap_name n) ''Cap_Start''" .
qed

lemma reverse_cap_name_end:
  assumes "startswith n ''Cap_End''"
  shows "startswith (reverse_cap_name n) ''Cap_Start''"
    and "\<not> startswith (reverse_cap_name n) ''Cap_End''"
proof -
  have ns: "\<not> startswith n ''Cap_Start''" by (rule startswith_excl[OF assms])
  have 1: "replace n ''Cap_End'' ''Cap_Start''
        = ''Cap_Start'' @ replace (drop (length ''Cap_End'') n) ''Cap_End'' ''Cap_Start''"
    by (rule replace_prefix[OF _ assms]) simp
  show s: "startswith (reverse_cap_name n) ''Cap_Start''"
    unfolding reverse_cap_name_def using assms ns by (simp only: if_True if_False 1 startswith_append)
  show "\<not> startswith (reverse_cap_name n) ''Cap_End''"
    using startswith_excl s by blast
qed

lemma reverse_cap_name_other:
  "\<not> startswith n ''Cap_Start'' \<Longrightarrow> \<not> startswith n ''Cap_End'' \<Longrightarrow> reverse_cap_name n = n"
  by (simp add: reverse_cap_name_def)

lemma reverse_cap_name_twice:
  "startswith (reverse_cap_name (reverse_cap_name n)) ''Cap_Start'' = startswith n ''Cap_Start''"
  "startswith (reverse_cap_name (reverse_cap_name n)) ''Cap_End'' = startswith n ''Cap_End''"
proof -
  consider (s) "startswith n ''Cap_Start''" | (e) "startswith n ''Cap_End''"
    | (o) "\<not> startswith n ''Cap_Start''" "\<not> startswith n ''Cap_End''" by blast
  then have "startswith (reverse_cap_name (reverse_cap_name n)) ''Cap_Start'' = startswith n ''Cap_Start''
     \<and> startswith (reverse_cap_name (reverse_cap_name n)) ''Cap_End'' = startswith n ''Cap_End''"
  proof cases
    case s
    from reverse_cap_name_end[OF reverse_cap_name_start(1)[OF s]] s startswith_excl[of n]
    show ?thesis by blast
  next
    case e
    from reverse_cap_name_start[OF reverse_cap_name_end(1)[OF e]] e startswith_excl[of n]
    show ?thesis by blast
  next
    case o
    then show ?thesis by (simp add: reverse_cap_name_other)
  qed
  then show "startswith (reverse_cap_name (reverse_cap_name n)) ''Cap_Start'' = startswith n ''Cap_Start''"
    "startswith (reverse_cap_name (reverse_cap_name n)) ''Cap_End'' = startswith n ''Cap_End''"
    by simp_all
qed

lemma slice_all_Inr: "slice_all p = Inr v \<longleftrightarrow> p = IDArray v"
  by (cases p) (auto simp: slice_all_def)

lemma reverse_run:
  assumes act: "active_object context = Some c" and ob: "objects w c = Some cable"
    and run: "reverse_cable_execute context w = Inr (FINISHED, r, w1)"
    and j: "objects w j = Some obj"
  shows "\<exists>ob1. objects w1 j = Some ob1 \<and> parent ob1 = parent obj \<and> type ob1 = type obj \<and>
           name ob1 = (if parent obj = Some c then reverse_cap_name (name obj) else name obj) \<and>
           props ob1 = (if j = c then swap_ends (props obj) else props obj)"
proof -
  from run act ob obtain sp ep sn en w5 where
    k: "props cable ''start_pos'' = Some (IDArray sp)" "props cable ''end_pos'' = Some (IDArray ep)"
       "props cable ''start_normal'' = Some (IDArray sn)" "props cable ''end_normal'' = Some (IDArray en)"
    and h: "update_cable_handles c
              (set_prop c ''end_normal'' (IDArray sn) (set_prop c ''start_normal'' (IDArray en)
                (set_prop c ''end_pos'' (IDArray sp) (set_prop c ''start_pos'' (IDArray ep) w)))) = Inr w5"
    and o: "update_end_cap_orientations c
              (map_children c (\<lambda>cap. cap\<lparr>name := reverse_cap_name (name cap)\<rparr>) w5) = Inr w1"
    by (auto simp: reverse_cable_execute_def Let_def bind_def getitem_def slice_all_Inr
        split: if_splits sum.splits option.splits)
  define w4 where "w4 = set_prop c ''end_normal'' (IDArray sn) (set_prop c ''start_normal'' (IDArray en)
                (set_prop c ''end_pos'' (IDArray sp) (set_prop c ''start_pos'' (IDArray ep) w)))"
  have sw: "(props cable)(''start_pos'' \<mapsto> IDArray ep, ''end_pos'' \<mapsto> IDArray sp,
              ''start_normal'' \<mapsto> IDArray en, ''end_normal'' \<mapsto> IDArray sn) = swap_ends (props cable)"
    using k by (simp add: swap_ends_def)
  have "\<exists>ob4. objects w4 j = Some ob4 \<and> parent ob4 = parent obj \<and> name ob4 = name obj \<and>
          type ob4 = type obj \<and>
          props ob4 = (if j = c then swap_ends (props obj) else props obj)"
    using j ob sw by (auto simp: w4_def set_prop_def objects_map_object type_def)
  then obtain ob4 where ob4: "objects w4 j = Some ob4" "parent ob4 = parent obj"
    "name ob4 = name obj" "props ob4 = (if j = c then swap_ends (props obj) else props obj)"
    "type ob4 = type obj"
    by blast
  from update_cable_handles_frame[OF h[folded w4_def] ob4(1)] obtain ob5 where
    ob5: "objects w5 j = Some ob5" "name ob5 = name ob4" "props ob5 = props ob4"
      "parent ob5 = parent ob4" "type ob5 = type ob4" by blast
  define w6 where "w6 = map_children c (\<lambda>cap. cap\<lparr>name := reverse_cap_name (name cap)\<rparr>) w5"
  have "\<exists>ob6. objects w6 j = Some ob6 \<and> parent ob6 = parent ob5 \<and> props ob6 = props ob5 \<and>
          type ob6 = type ob5 \<and>
          name ob6 = (if parent ob5 = Some c then reverse_cap_name (name ob5) else name ob5)"
    using ob5(1) by (simp add: w6_def objects_map_children type_def)
  then obtain ob6 where ob6: "objects w6 j = Some ob6" "parent ob6 = parent ob5"
     "props ob6 = props ob5" "type ob6 = type ob5"
     "name ob6 = (if parent ob5 = Some c then reverse_cap_name (name ob5) else name ob5)"
    by blast
  from update_end_cap_orientations_frame[OF o[folded w6_def] ob6(1)] ob6 ob5 ob4
  show ?thesis by auto
qed

lemma swap_ends_keys:
  "swap_ends ps ''start_pos'' = ps ''end_pos''" "swap_ends ps ''end_pos'' = ps ''start_pos''"
  "swap_ends ps ''start_normal'' = ps ''end_normal''"
  "swap_ends ps ''end_normal'' = ps ''start_normal''"
  by (simp_all add: swap_ends_def)

lemma swap_ends_twice: "swap_ends (swap_ends ps) = ps"
  by (rule ext) (simp add: swap_ends_def)

lemma reverse_succeeds:
  assumes act: "active_object context = Some c" and ob: "objects w c = Some cable"
    and ty: "type cable = CURVE" and ic: "props cable ''is_cable'' \<noteq> None"
    and k: "props cable ''start_pos'' = Some (IDArray sp)"
       "props cable ''end_pos'' = Some (IDArray ep)"
       "props cable ''start_normal'' = Some (IDArray sn)"
       "props cable ''end_normal'' = Some (IDArray en)"
    and sg: "to_float (get_default (props cable) ''cable_sag'' (IDFloat 0)) = Inr sag"
  shows "\<exists>r w1. reverse_cable_execute context w = Inr (FINISHED, r, w1)"
proof -
  define w4 where "w4 = set_prop c ''end_normal'' (IDArray sn) (set_prop c ''start_normal'' (IDArray en)
                (set_prop c ''end_pos'' (IDArray sp) (set_prop c ''start_pos'' (IDArray ep) w)))"
  define cable4 where "cable4 = cable\<lparr>props := (props cable)(''start_pos'' \<mapsto> IDArray ep,
      ''end_pos'' \<mapsto> IDArray sp, ''start_normal'' \<mapsto> IDArray en, ''end_normal'' \<mapsto> IDArray sn)\<rparr>"
  have o4: "objects w4 c = Some cable4"
    using ob by (simp add: w4_def cable4_def set_prop_def objects_map_object)
  have "\<exists>w5. update_cable_handles c w4 = Inr w5"
    by (rule update_cable_handles_ok[OF o4, where sp = ep and ep = sp and sn = en and en = sn and sag = sag])
       (use ty sg in \<open>simp_all add: cable4_def type_def get_default_def\<close>)
  then obtain w5 where w5: "update_cable_handles c w4 = Inr w5" by blast
  from update_cable_handles_frame[OF w5 o4] obtain ob5 where ob5: "objects w5 c = Some ob5"
    "type ob5 = CURVE" using ty by (auto simp: cable4_def type_def)
  define w6 where "w6 = map_children c (\<lambda>cap. cap\<lparr>name := reverse_cap_name (name cap)\<rparr>) w5"
  have "\<exists>ob6. objects w6 c = Some ob6 \<and> type ob6 = CURVE"
    using ob5 by (auto simp: w6_def objects_map_children type_def)
  then obtain ob6 where "objects w6 c = Some ob6" "type ob6 = CURVE" by blast
  from update_end_cap_orientations_ok[OF this] obtain w7 where
    w7: "update_end_cap_orientations c w6 = Inr w7" by blast
  show ?thesis
    using act ob ty ic k w5 w7
    by (simp add: reverse_cable_execute_def Let_def getitem_def slice_all_def
        w4_def[symmetric] w6_def[symmetric])
qed


text \<open>
  Claim C9. One successful run of Reverse Direction swaps \<^verbatim>\<open>start_pos\<close> with
  \<^verbatim>\<open>end_pos\<close> and \<^verbatim>\<open>start_normal\<close> with \<^verbatim>\<open>end_normal\<close> and swaps the name prefix
  \<^verbatim>\<open>Cap_Start\<close> / \<^verbatim>\<open>Cap_End\<close> of every child; after a second successful run the four
  metadata values and the prefix of every cap child are the original ones.
\<close>

theorem reverse_cable_involution:
  assumes act: "active_object context = Some c" and ob: "objects w c = Some cable"
    and run: "reverse_cable_execute context w = Inr (FINISHED, r, w1)"
  shows "(\<exists>cable1. objects w1 c = Some cable1 \<and>
            props cable1 ''start_pos'' = props cable ''end_pos'' \<and>
            props cable1 ''end_pos'' = props cable ''start_pos'' \<and>
            props cable1 ''start_normal'' = props cable ''end_normal'' \<and>
            props cable1 ''end_normal'' = props cable ''start_normal'')
       \<and> (\<forall>i cap. objects w i = Some cap \<and> parent cap = Some c \<longrightarrow>
            (\<exists>cap1. objects w1 i = Some cap1 \<and> parent cap1 = Some c \<and>
               (startswith (name cap) ''Cap_Start'' \<longrightarrow> startswith (name cap1) ''Cap_End'') \<and>
               (startswith (name cap) ''Cap_End'' \<longrightarrow> startswith (name cap1) ''Cap_Start'')))
       \<and> (\<forall>r' w2. reverse_cable_execute context w1 = Inr (FINISHED, r', w2) \<longrightarrow>
            (\<exists>cable2. objects w2 c = Some cable2 \<and>
               props cable2 ''start_pos'' = props cable ''start_pos'' \<and>
               props cable2 ''end_pos'' = props cable ''end_pos'' \<and>
               props cable2 ''start_normal'' = props cable ''start_normal'' \<and>
               props cable2 ''end_normal'' = props cable ''end_normal'') \<and>
            (\<forall>i cap. objects w i = Some cap \<and> parent cap = Some c \<longrightarrow>
               (\<exists>cap2. objects w2 i = Some cap2 \<and> parent cap2 = Some c \<and>
                  (startswith (name cap2) ''Cap_Start'' \<longleftrightarrow> startswith (name cap) ''Cap_Start'') \<and>
                  (startswith (name cap2) ''Cap_End'' \<longleftrightarrow> startswith (name cap) ''Cap_End''))))"
proof (intro conjI allI impI)
  from reverse_run[OF act ob run ob]
  show "\<exists>cable1. objects w1 c = Some cable1 \<and>
            props cable1 ''start_pos'' = props cable ''end_pos'' \<and>
            props cable1 ''end_pos'' = props cable ''start_pos'' \<and>
            props cable1 ''start_normal'' = props cable ''end_normal'' \<and>
            props cable1 ''end_normal'' = props cable ''start_normal''"
    by (auto simp: swap_ends_keys)
next
  fix i cap assume a: "objects w i = Some cap \<and> parent cap = Some c"
  from reverse_run[OF act ob run, of i cap] a
  show "\<exists>cap1. objects w1 i = Some cap1 \<and> parent cap1 = Some c \<and>
               (startswith (name cap) ''Cap_Start'' \<longrightarrow> startswith (name cap1) ''Cap_End'') \<and>
               (startswith (name cap) ''Cap_End'' \<longrightarrow> startswith (name cap1) ''Cap_Start'')"
    by (auto simp: reverse_cap_name_start(1) reverse_cap_name_end(1))
next
  fix r' w2 assume run2: "reverse_cable_execute context w1 = Inr (FINISHED, r', w2)"
  from reverse_run[OF act ob run ob] obtain cable1 where c1: "objects w1 c = Some cable1"
    "props cable1 = swap_ends (props cable)" by auto
  from reverse_run[OF act c1(1) run2 c1(1)] c1(2)
  show "\<exists>cable2. objects w2 c = Some cable2 \<and>
               props cable2 ''start_pos'' = props cable ''start_pos'' \<and>
               props cable2 ''end_pos'' = props cable ''end_pos'' \<and>
               props cable2 ''start_normal'' = props cable ''start_normal'' \<and>
               props cable2 ''end_normal'' = props cable ''end_normal''"
    by (auto simp: swap_ends_twice)
next
  fix r' w2 i cap
  assume run2: "reverse_cable_execute context w1 = Inr (FINISHED, r', w2)"
    and a: "objects w i = Some cap \<and> parent cap = Some c"
  from reverse_run[OF act ob run ob] obtain cable1 where c1: "objects w1 c = Some cable1" by auto
  from reverse_run[OF act ob run, of i cap] a obtain cap1 where cap1:
    "objects w1 i = Some cap1" "parent cap1 = Some c" "name cap1 = reverse_cap_name (name cap)"
    by auto
  from reverse_run[OF act c1 run2 cap1(1)] cap1(2,3)
  show "\<exists>cap2. objects w2 i = Some cap2 \<and> parent cap2 = Some c \<and>
                  (startswith (name cap2) ''Cap_Start'' \<longleftrightarrow> startswith (name cap) ''Cap_Start'') \<and>
                  (startswith (name cap2) ''Cap_End'' \<longleftrightarrow> startswith (name cap) ''Cap_End'')"
    by (auto simp: reverse_cap_name_twice)
qed


theorem reverse_cable_involution_witness:
  "\<exists>r1 w1 r2 w2 cable1 cable2 cap1 cap2.
     reverse_cable_execute demo_ctx (capped_world (IDInt 1) (Vector 0 0 0)) = Inr (FINISHED, r1, w1) \<and>
     objects w1 0 = Some cable1 \<and>
     props cable1 ''start_pos'' = Some (IDArray (Vector 3 4 0)) \<and>
     props cable1 ''end_pos'' = Some (IDArray (Vector 0 0 0)) \<and>
     objects w1 1 = Some cap1 \<and> startswith (name cap1) ''Cap_End'' \<and>
     reverse_cable_execute demo_ctx w1 = Inr (FINISHED, r2, w2) \<and>
     objects w2 0 = Some cable2 \<and>
     props cable2 ''start_pos'' = Some (IDArray (Vector 0 0 0)) \<and>
     props cable2 ''end_pos'' = Some (IDArray (Vector 3 4 0)) \<and>
     objects w2 1 = Some cap2 \<and> startswith (name cap2) ''Cap_Start''"
proof -
  let ?w = "capped_world (IDInt 1) (Vector 0 0 0)"
  let ?cable = "demo_cable\<lparr>props := (props demo_cable)(''has_end_caps'' \<mapsto> IDInt 1)\<rparr>"
  let ?cap = "demo_cap ''Cap_Start_Cable_1'' (Vector 0 0 0)"
  have act: "active_object demo_ctx = Some 0" by (simp add: demo_ctx_def)
  have ob: "objects ?w 0 = Some ?cable" by (simp add: capped_world_def)
  have cap: "objects ?w 1 = Some ?cap \<and> parent ?cap = Some 0"
    by (simp add: capped_world_def demo_cap_def)
  have st: "startswith (name ?cap) ''Cap_Start''"
    by (simp add: demo_cap_def startswith_def)
  have ty: "type ?cable = CURVE" by (simp add: demo_cable_def type_def)
  have pr: "props ?cable ''start_pos'' = Some (IDArray (Vector 0 0 0))"
    "props ?cable ''end_pos'' = Some (IDArray (Vector 3 4 0))"
    by (simp_all add: demo_cable_def)
  obtain r1 w1 where t1: "reverse_cable_execute demo_ctx ?w = Inr (FINISHED, r1, w1)"
    using reverse_succeeds[OF act ob ty, of "Vector 0 0 0" "Vector 3 4 0" "Vector 0 0 1"
        "Vector (6 / 10) (8 / 10) 0" "1 / 2"]
    by (auto simp: demo_cable_def get_default_def to_float_def)
  from reverse_run[OF act ob t1 ob] obtain c1 where c1: "objects w1 0 = Some c1"
    "type c1 = CURVE" "props c1 = swap_ends (props ?cable)"
    using ty by auto
  obtain r2 w2 where t2: "reverse_cable_execute demo_ctx w1 = Inr (FINISHED, r2, w2)"
    using reverse_succeeds[OF act c1(1) c1(2), of "Vector 3 4 0" "Vector 0 0 0"
        "Vector (6 / 10) (8 / 10) 0" "Vector 0 0 1" "1 / 2"]
    by (auto simp: c1(3) swap_ends_def demo_cable_def get_default_def to_float_def)
  note inv = reverse_cable_involution[OF act ob t1]
  from inv obtain cable1 where k1: "objects w1 0 = Some cable1"
    "props cable1 ''start_pos'' = props ?cable ''end_pos''"
    "props cable1 ''end_pos'' = props ?cable ''start_pos''" by blast
  from inv cap st obtain cap1 where k2: "objects w1 1 = Some cap1"
    "startswith (name cap1) ''Cap_End''" by blast
  from inv t2 obtain cable2 where k3: "objects w2 0 = Some cable2"
    "props cable2 ''start_pos'' = props ?cable ''start_pos''"
    "props cable2 ''end_pos'' = props ?cable ''end_pos''" by blast
  from inv t2 cap st obtain cap2 where k4: "objects w2 1 = Some cap2"
    "startswith (name cap2) ''Cap_Start''" by blast
  show ?thesis
    using t1 t2 k1 k2 k3 k4 unfolding pr by blast
qed


subsection \<open>Generating cables\<close>

lemma finish_generate_status:
  "bind m (finish_generate cprops) = Inr (s, r, cs, w') \<Longrightarrow> s = FINISHED"
  by (cases m) (auto simp: finish_generate_def Let_def split: prod.splits)

lemma edit_mode_filter:
  "(filter (\<lambda>i. case objects w i of None \<Rightarrow> False
                 | Some obj \<Rightarrow> type obj = MESH \<and> mode obj = EDIT) xs \<noteq> [])
   = list_ex (in_edit_mode w) xs"
  by (induction xs) (auto simp: in_edit_mode_def)


lemma create_curve_world:
  "\<exists>w' ob. create_curve_between_points sp sn ep en nm w = Inr (next_id w, w') \<and>
     next_id w' = Suc (next_id w) \<and>
     objects w' (next_id w) = Some ob \<and> parent ob = None \<and>
     connects w' (next_id w) \<lparr>fd_object = oa, fd_center = sp, fd_normal = sn\<rparr>
        \<lparr>fd_object = ob', fd_center = ep, fd_normal = en\<rparr> \<and>
     (\<forall>j o'. objects w j = Some o' \<and> j \<noteq> next_id w \<and> parent o' \<noteq> Some (next_id w)
         \<longrightarrow> objects w' j = Some o') \<and>
     (\<forall>j. objects w j \<noteq> None \<longrightarrow> objects w' j \<noteq> None)"
  by (simp add: create_curve_between_points_def link_new_def Let_def new_object_def
      update_cable_handles_def getitem_def to_Vector_def get_default_def to_float_def
      update_end_cap_orientations_def map_children_def setup_cable_drivers_def type_def
      connects_def first_spline_point_def new_bezier_point_def set_object_def
      split: option.splits)

lemma next_id_map_object [simp]: "next_id (map_object i f w) = next_id w"
  by (simp add: map_object_def)

lemma create_curve_world_fd:
  "\<exists>w' ob. create_curve_between_points (fd_center a) (fd_normal a) (fd_center b) (fd_normal b)
        nm w = Inr (next_id w, w') \<and>
     next_id w' = Suc (next_id w) \<and>
     objects w' (next_id w) = Some ob \<and> parent ob = None \<and>
     connects w' (next_id w) a b \<and>
     (\<forall>j o'. objects w j = Some o' \<and> j \<noteq> next_id w \<and> parent o' \<noteq> Some (next_id w)
         \<longrightarrow> objects w' j = Some o') \<and>
     (\<forall>j. objects w j \<noteq> None \<longrightarrow> objects w' j \<noteq> None)"
  using create_curve_world[of "fd_center a" "fd_normal a" "fd_center b" "fd_normal b" nm w
      "fd_object a" "fd_object b"]
  by (cases a, cases b) simp

lemma create_end_cap_cases:
  "create_end_cap pos n t m scl nm w = (None, w) \<or>
   (\<exists>cap. create_end_cap pos n t m scl nm w =
      (Some (next_id w), w\<lparr>objects := (objects w)(next_id w \<mapsto> cap), next_id := Suc (next_id w),
                           scene_objects := scene_objects w @ [next_id w]\<rparr>))"
  by (auto simp: create_end_cap_def link_new_def Let_def split: option.splits)

lemma grows_refl: "grows c w w"
  by (simp add: grows_def)

lemma grows_trans: "grows c w w1 \<Longrightarrow> grows c w1 w2 \<Longrightarrow> grows c w w2"
  unfolding grows_def by (auto; metis le_trans less_le_trans)

lemma grows_set_prop:
  "k \<notin> {''is_cable'', ''start_pos'', ''end_pos'', ''start_normal'', ''end_normal''} \<Longrightarrow>
   grows c w (set_prop c k v w)"
  by (auto simp: grows_def set_prop_def objects_map_object connects_def first_spline_point_def
      type_def split: option.splits)

lemma grows_set_resolution_u: "grows c w (set_resolution_u c res w)"
  by (auto simp: grows_def set_resolution_u_def objects_map_object connects_def
      first_spline_point_def type_def split: option.splits obj_data.splits)

lemma grows_cap:
  assumes "create_end_cap pos n t m scl nm w = (cap, w1)" and "c < next_id w"
  shows "grows c w (case cap of None \<Rightarrow> w1 | Some k \<Rightarrow> set_parent k c w1)"
  using create_end_cap_cases[of pos n t m scl nm w] assms
  by (auto simp: grows_def set_parent_def objects_map_object connects_def
      first_spline_point_def split: option.splits)

lemma grows_cap_caps:
  assumes "create_end_cap pos n t m scl nm w = (cap, w1)" and "c < next_id w"
  shows "grows c w (case cap of None \<Rightarrow> w1
                    | Some k \<Rightarrow> set_prop c ''has_end_caps'' (IDInt 1) (set_parent k c w1))"
proof (cases cap)
  case None
  with grows_cap[OF assms] show ?thesis by simp
next
  case (Some k)
  with grows_cap[OF assms] have "grows c w (set_parent k c w1)" by simp
  from grows_trans[OF this grows_set_prop[of "''has_end_caps''" c "set_parent k c w1" "IDInt 1"]]
  show ?thesis using Some by simp
qed

lemma connect_good:
  assumes "connect cprops a b n1 n2 n3 w = Inr (c, w')"
  shows "c = next_id w \<and> c < next_id w' \<and> connects w' c a b \<and>
         (\<exists>ob. objects w' c = Some ob \<and> parent ob = None) \<and>
         (\<forall>j o'. objects w j = Some o' \<and> j < next_id w \<and> parent o' \<noteq> Some (next_id w)
            \<longrightarrow> objects w' j = Some o') \<and>
         (\<forall>j. objects w j \<noteq> None \<longrightarrow> objects w' j \<noteq> None)"
proof -
  from create_curve_world_fd[of a b n1 w]
  obtain w1 ob where cw:
    "create_curve_between_points (fd_center a) (fd_normal a) (fd_center b) (fd_normal b) n1 w
       = Inr (next_id w, w1)"
    "next_id w1 = Suc (next_id w)" "objects w1 (next_id w) = Some ob" "parent ob = None"
    "connects w1 (next_id w) a b"
    "\<forall>j o'. objects w j = Some o' \<and> j \<noteq> next_id w \<and> parent o' \<noteq> Some (next_id w)
         \<longrightarrow> objects w1 j = Some o'"
    "\<forall>j. objects w j \<noteq> None \<longrightarrow> objects w1 j \<noteq> None"
    by auto
  let ?c = "next_id w"
  define w4 where "w4 = set_resolution_u ?c (resolution cprops)
     (set_prop ?c ''cable_resolution'' (IDInt (resolution cprops))
       (set_prop ?c ''cable_thickness'' (IDFloat (thickness cprops)) w1))"
  have g4: "grows ?c w1 w4"
    unfolding w4_def
    by (intro grows_trans[OF grows_set_prop grows_trans[OF grows_set_prop grows_set_resolution_u]])
       simp_all
  have c4: "?c < next_id w4" using g4 cw(2) by (auto simp: grows_def)
  have "c = ?c \<and> grows ?c w4 w'"
  proof (cases "add_end_caps cprops")
    case False
    with assms cw(1) have "c = ?c" "w' = w4"
      by (auto simp: connect_def Let_def w4_def)
    then show ?thesis by (simp add: grows_refl)
  next
    case True
    obtain sc w5 where e1: "create_end_cap (fd_center a) (fd_normal a) (end_cap_type cprops)
        (end_cap_mesh cprops) (thickness cprops * 20.0) n2 w4 = (sc, w5)"
      by (cases "create_end_cap (fd_center a) (fd_normal a) (end_cap_type cprops)
        (end_cap_mesh cprops) (thickness cprops * 20.0) n2 w4") auto
    define w6 where "w6 = (case sc of None \<Rightarrow> w5
        | Some k \<Rightarrow> set_prop ?c ''has_end_caps'' (IDInt 1) (set_parent k ?c w5))"
    have g6: "grows ?c w4 w6" unfolding w6_def by (rule grows_cap_caps[OF e1 c4])
    have c6: "?c < next_id w6" using g6 c4 by (auto simp: grows_def)
    obtain ec w7 where e2: "create_end_cap (fd_center b) (fd_normal b) (end_cap_type cprops)
        (end_cap_mesh cprops) (thickness cprops * 20.0) n3 w6 = (ec, w7)"
      by (cases "create_end_cap (fd_center b) (fd_normal b) (end_cap_type cprops)
        (end_cap_mesh cprops) (thickness cprops * 20.0) n3 w6") auto
    have g8: "grows ?c w6 (case ec of None \<Rightarrow> w7 | Some k \<Rightarrow> set_parent k ?c w7)"
      by (rule grows_cap[OF e2 c6])
    from assms cw(1) True e1 e2
    have "c = ?c" "w' = (case ec of None \<Rightarrow> w7 | Some k \<Rightarrow> set_parent k ?c w7)"
      by (auto simp: connect_def Let_def w4_def[symmetric] w6_def[symmetric])
    with grows_trans[OF g6 g8] show ?thesis by simp
  qed
  then have c: "c = ?c" and g: "grows ?c w1 w'" using grows_trans[OF g4] by auto
  show ?thesis
    using c g cw(2-7) unfolding grows_def
    by (auto; metis less_Suc_eq less_le_trans nat_neq_iff option.distinct(1))
qed


lemma connect_total: "\<exists>c w'. connect cprops a b n1 n2 n3 w = Inr (c, w')"
proof -
  from create_curve_world_fd[of a b n1 w] obtain w1 where
    "create_curve_between_points (fd_center a) (fd_normal a) (fd_center b) (fd_normal b)
        n1 w = Inr (next_id w, w1)" by blast
  then show ?thesis
    by (simp add: connect_def Let_def split: prod.splits)
qed








lemma connect_sequential_total:
  "\<exists>cs w'. connect_sequential cprops ds idxs created w = Inr (cs, w')"
proof (induction idxs arbitrary: created w)
  case Nil
  show ?case by simp
next
  case (Cons i rest)
  obtain c w1 where "connect cprops (ds ! i) (ds ! (i + 1)) (''Cable_'' @ str_nat (i + 1))
          (''Cap_Start_'' @ str_nat (i + 1)) (''Cap_End_'' @ str_nat (i + 1)) w = Inr (c, w1)"
    using connect_total by blast
  with Cons.IH[of "created @ [c]" w1] show ?case by simp
qed

lemma connect_all_to_first_total:
  assumes "\<forall>i\<in>set idxs. objects w (fd_object (ds ! i)) \<noteq> None"
  shows "\<exists>cs w'. connect_all_to_first cprops ds idxs created w = Inr (cs, w')"
  using assms
proof (induction idxs arbitrary: created w)
  case Nil
  show ?case by simp
next
  case (Cons i rest)
  from Cons.prems obtain target where t: "objects w (fd_object (ds ! i)) = Some target" by auto
  define n1 where "n1 = ''Cable_to_'' @ name target"
  define n2 where "n2 = ''Cap_Start_to_'' @ name target"
  define n3 where "n3 = ''Cap_End_to_'' @ name target"
  obtain c w1 where c: "connect cprops (ds ! 0) (ds ! i) n1 n2 n3 w = Inr (c, w1)"
    using connect_total by blast
  from connect_good[OF c] Cons.prems
  have "\<forall>i\<in>set rest. objects w1 (fd_object (ds ! i)) \<noteq> None" by auto
  from Cons.IH[OF this, of "created @ [c]"] t c show ?case
    by (simp add: n1_def n2_def n3_def)
qed

lemma get_object_centers_exist:
  "d \<in> set (get_object_centers context w) \<Longrightarrow> objects w (fd_object d) \<noteq> None"
  by (auto simp: get_object_centers_def split: option.splits if_splits) metis

lemma finish_generate_total:
  "\<exists>r w'. finish_generate cprops (cs, w1) = Inr (FINISHED, r, cs, w')"
  by (simp add: finish_generate_def Let_def)

lemma generate_cable_finishes:
  assumes "\<not> selection_insufficient context w"
  shows "\<exists>r cs w'. generate_cable_execute context w = Inr (FINISHED, r, cs, w')"
proof -
  let ?cp = "cable_gen_props context"
  let ?cs = "get_object_centers context w"
  have fin: "\<exists>r cs w'. bind m (finish_generate ?cp) = Inr (FINISHED, r, cs, w')"
    if "\<exists>cs w1. m = Inr (cs, w1)" for m
    using that finish_generate_total[of ?cp] by (auto simp: bind_def) blast
  have a2f: "\<exists>cs w1. connect_all_to_first ?cp ?cs [1..<length ?cs] [] w = Inr (cs, w1)"
    by (rule connect_all_to_first_total)
       (use get_object_centers_exist[of _ "context" w] in \<open>auto simp del: not_None_eq\<close>)
  show ?thesis
    using assms fin[OF connect_sequential_total] fin[OF a2f]
    by (cases "connection_mode ?cp")
       (auto simp: selection_insufficient_def generate_cable_execute_def Let_def
          edit_mode_filter split: if_splits)
qed

text \<open>
  Claim C3. Generate Cable returns \<^verbatim>\<open>CANCELLED\<close> exactly when the selection is
  insufficient: nothing selected, fewer than two selected faces on the edit mode path,
  fewer than two selected mesh objects otherwise. It then reports a warning, has created
  no cable and leaves the world as it was; with a sufficient selection it finishes.
\<close>

theorem generate_cable_cancelled:
  "((\<exists>r cs w'. generate_cable_execute context w = Inr (CANCELLED, r, cs, w'))
      \<longleftrightarrow> selection_insufficient context w) \<and>
   (\<forall>r cs w'. generate_cable_execute context w = Inr (CANCELLED, r, cs, w')
      \<longrightarrow> fst r = WARNING \<and> cs = [] \<and> w' = w) \<and>
   (\<not> selection_insufficient context w \<longrightarrow>
      (\<exists>r cs w'. generate_cable_execute context w = Inr (FINISHED, r, cs, w')))"
proof -
  have a: "selection_insufficient context w \<Longrightarrow>
        \<exists>r. generate_cable_execute context w = Inr (CANCELLED, r, [], w) \<and> fst r = WARNING"
    by (auto simp: selection_insufficient_def generate_cable_execute_def Let_def
        edit_mode_filter split: if_splits)
  have b: "selection_insufficient context w \<and> fst r = WARNING \<and> cs = [] \<and> w' = w"
    if "generate_cable_execute context w = Inr (CANCELLED, r, cs, w')" for r cs w'
    using that
    by (auto simp: selection_insufficient_def generate_cable_execute_def Let_def
        edit_mode_filter split: if_splits dest: finish_generate_status)
  show ?thesis using a b generate_cable_finishes by blast
qed

theorem generate_cable_cancelled_witness:
  "selection_insufficient demo_ctx demo_world \<and>
   (\<exists>r. generate_cable_execute demo_ctx demo_world = Inr (CANCELLED, r, [], demo_world) \<and>
        fst r = WARNING) \<and>
   \<not> selection_insufficient mesh_ctx mesh_world \<and>
   (\<exists>r cs w'. generate_cable_execute mesh_ctx mesh_world = Inr (FINISHED, r, cs, w'))"
proof -
  have i: "selection_insufficient demo_ctx demo_world"
    by (simp add: selection_insufficient_def demo_ctx_def demo_world_def demo_cable_def
        in_edit_mode_def type_def get_object_centers_def)
  have j: "\<not> selection_insufficient mesh_ctx mesh_world"
    by (simp add: selection_insufficient_def mesh_ctx_def mesh_world_def demo_mesh_def
        new_object_def in_edit_mode_def type_def get_object_centers_def)
  from generate_cable_cancelled[of demo_ctx demo_world] i j generate_cable_cancelled[of mesh_ctx mesh_world]
  show ?thesis by blast
qed


end
